theory Spec2Isabelle
  imports Complex_Main "HOL-Library.Multiset" "HOL-Library.Sublist" "HOL-Library.Log_Nat"
begin

section \<open>The DictaBERT conversion script\<close>

text \<open>
  A shallow embedding of \<^verbatim>\<open>scripts/convert_dictabert_coreml.py\<close>: the vocabulary
  export, the attention-bias derivation of \<^verbatim>\<open>MaskedLMWrapper.forward\<close>, and the
  sequence of file-system operations and library calls that \<^verbatim>\<open>main\<close> performs.
\<close>

subsection \<open>Vocabulary export (lines 81 to 85 of the script)\<close>

text \<open>
  \<^verbatim>\<open>tokenizer.get_vocab()\<close> returns a Python dict from token strings to integer ids.
  \<^verbatim>\<open>vocab.items()\<close> lists its entries in insertion order, so the dict is modelled by
  the list of its items. Python's \<^verbatim>\<open>sorted\<close> is a stable sort on the key
  \<^verbatim>\<open>kv[1]\<close>, the id; \<open>sort_key\<close> is the stable sort of the HOL library.
\<close>

text \<open>
  A Python string is modelled by the bytes of its UTF-8 encoding, so a newline
  character is the byte \<open>0x0A\<close> wherever it stands. A Python string can also hold a
  lone surrogate (a code point from \<open>D800\<close> to \<open>DFFF\<close>), which UTF-8 refuses to encode;
  it is modelled by the three bytes the encoding scheme would give it, \<open>0xED\<close> followed
  by a byte from \<open>0xA0\<close> to \<open>0xBF\<close> and one more byte, a sequence that occurs in the
  encoding of no other character.
\<close>

type_synonym vocab = "(string \<times> int) list"

definition newline :: char where
  "newline = CHR 0x0A"

definition ordered :: "vocab \<Rightarrow> vocab" where
  "ordered vocab = sort_key snd vocab"

text \<open>
  The text that the loop \<^verbatim>\<open>for token, _ in ordered: f.write(token + "\n")\<close> hands to
  the file, with the text handed over so far as the accumulator. It is the content of
  the file when the loop has run to its end; the loop on the file itself, where a write
  can raise, is \<open>write_loop\<close> below.
\<close>

fun write_tokens :: "vocab \<Rightarrow> string \<Rightarrow> string" where
  "write_tokens [] f = f"
| "write_tokens ((token, _) # rest) f = write_tokens rest (f @ (token @ [newline]))"

text \<open>
  The file is opened with mode \<^verbatim>\<open>"w"\<close>: it starts empty. The line ending of the
  platform (text mode may translate the newline character) is below this model.
\<close>

definition vocab_text :: "vocab \<Rightarrow> string" where
  "vocab_text vocab = write_tokens (ordered vocab) []"

text \<open>
  The lines of a text file, as a reader of a newline-delimited file sees them: every
  newline character ends a line, and text after the last newline is a last line.
\<close>

fun file_lines :: "string \<Rightarrow> string list" where
  "file_lines [] = []"
| "file_lines (c # cs) =
     (if c = newline then [] # file_lines cs
      else (case file_lines cs of [] \<Rightarrow> [[c]] | l # ls \<Rightarrow> (c # l) # ls))"


definition newline_free :: "vocab \<Rightarrow> bool" where
  "newline_free vocab \<longleftrightarrow> (\<forall>kv \<in> set vocab. newline \<notin> set (fst kv))"


text \<open>The strings that hold a lone surrogate, and the vocabularies without such a token.\<close>

fun has_surrogate :: "string \<Rightarrow> bool" where
  "has_surrogate (a # b # cs) =
     (a = CHR 0xED \<and> (0xA0 :: nat) \<le> of_char b \<and> of_char b \<le> (0xBF :: nat)
      \<or> has_surrogate (b # cs))"
| "has_surrogate cs = False"

definition encodable :: "vocab \<Rightarrow> bool" where
  "encodable vocab \<longleftrightarrow> list_all (\<lambda>kv. \<not> has_surrogate (fst kv)) vocab"


subsection \<open>Floating-point numbers\<close>

text \<open>
  The wrapper computes its attention bias in \<^verbatim>\<open>torch.float32\<close>, and the constant
  \<^verbatim>\<open>-3.4028e+38\<close> is a Python float, a binary64 number. A floating-point number is a
  signed zero, a finite number \<open>\<plusminus> m * 2 ^ e\<close>, an infinity or a NaN. The sign is
  \<open>True\<close> for negative numbers. Every operation computes the exact result and rounds it
  once, to the nearest number of the format, ties to the even significand, and past the
  largest finite number to an infinity.
\<close>

datatype fp = Finite bool nat int | Infinity bool | NaN

record format =
  precision :: nat
  emin :: int
  emax :: int

definition binary32 :: format where
  "binary32 = \<lparr>precision = 24, emin = - 149, emax = 128\<rparr>"

definition binary64 :: format where
  "binary64 = \<lparr>precision = 53, emin = - 1074, emax = 1024\<rparr>"

text \<open>\<open>m / 2 ^ k\<close> rounded to the nearest natural number, ties to even.\<close>

definition round_nearest_even :: "nat \<Rightarrow> nat \<Rightarrow> nat" where
  "round_nearest_even m k =
     (let q = m div 2 ^ k; r = m mod 2 ^ k
      in if 2 ^ k < 2 * r \<or> (2 * r = 2 ^ k \<and> odd q) then q + 1 else q)"

text \<open>
  \<open>round_fp fmt s m e\<close> rounds \<open>\<plusminus> m * 2 ^ e\<close> into the format: \<open>emin\<close> is the exponent of the
  smallest subnormal number, and every finite number of the format is below \<open>2 ^ emax\<close>.
\<close>

definition round_fp :: "format \<Rightarrow> bool \<Rightarrow> nat \<Rightarrow> int \<Rightarrow> fp" where
  "round_fp fmt s m e =
     (if m = 0 then Finite s 0 0
      else
        let e' = max (e + bitlen (int m) - int (precision fmt)) (emin fmt);
            m' = (if e' \<le> e then m * 2 ^ nat (e - e') else round_nearest_even m (nat (e' - e)))
        in if emax fmt < bitlen (int m') + e' then Infinity s else Finite s m' e')"

definition fp_of_int :: "format \<Rightarrow> int \<Rightarrow> fp" where
  "fp_of_int fmt i = round_fp fmt (i < 0) (nat \<bar>i\<bar>) 0"

fun fneg :: "fp \<Rightarrow> fp" where
  "fneg (Finite s m e) = Finite (\<not> s) m e"
| "fneg (Infinity s) = Infinity (\<not> s)"
| "fneg NaN = NaN"

definition signed :: "bool \<Rightarrow> nat \<Rightarrow> int" where
  "signed s m = (if s then - int m else int m)"

fun fadd :: "format \<Rightarrow> fp \<Rightarrow> fp \<Rightarrow> fp" where
  "fadd fmt (Finite s1 m1 e1) (Finite s2 m2 e2) =
     (let e = min e1 e2;
          n = signed s1 m1 * 2 ^ nat (e1 - e) + signed s2 m2 * 2 ^ nat (e2 - e)
      in if n = 0 then Finite (s1 \<and> s2) 0 0 else round_fp fmt (n < 0) (nat \<bar>n\<bar>) e)"
| "fadd fmt (Infinity s1) (Infinity s2) = (if s1 = s2 then Infinity s1 else NaN)"
| "fadd fmt (Infinity s1) (Finite s2 m2 e2) = Infinity s1"
| "fadd fmt (Finite s1 m1 e1) (Infinity s2) = Infinity s2"
| "fadd fmt NaN y = NaN"
| "fadd fmt x NaN = NaN"

definition fsub :: "format \<Rightarrow> fp \<Rightarrow> fp \<Rightarrow> fp" where
  "fsub fmt x y = fadd fmt x (fneg y)"

fun fmul :: "format \<Rightarrow> fp \<Rightarrow> fp \<Rightarrow> fp" where
  "fmul fmt (Finite s1 m1 e1) (Finite s2 m2 e2) = round_fp fmt (s1 \<noteq> s2) (m1 * m2) (e1 + e2)"
| "fmul fmt (Infinity s1) (Infinity s2) = Infinity (s1 \<noteq> s2)"
| "fmul fmt (Infinity s1) (Finite s2 m2 e2) = (if m2 = 0 then NaN else Infinity (s1 \<noteq> s2))"
| "fmul fmt (Finite s1 m1 e1) (Infinity s2) = (if m1 = 0 then NaN else Infinity (s1 \<noteq> s2))"
| "fmul fmt NaN y = NaN"
| "fmul fmt x NaN = NaN"

text \<open>A number of one format converted to another one (\<^verbatim>\<open>double\<close> to \<^verbatim>\<open>float\<close>).\<close>

fun fcast :: "format \<Rightarrow> fp \<Rightarrow> fp" where
  "fcast fmt (Finite s m e) = round_fp fmt s m e"
| "fcast fmt (Infinity s) = Infinity s"
| "fcast fmt NaN = NaN"

text \<open>The value of a finite number, and the comparisons the properties below need.\<close>

fun valof :: "fp \<Rightarrow> real" where
  "valof (Finite s m e) =
     (if 0 \<le> e then real_of_int (signed s m) * 2 ^ nat e
      else real_of_int (signed s m) / 2 ^ nat (- e))"
| "valof (Infinity s) = 0"
| "valof NaN = 0"

fun is_finite :: "fp \<Rightarrow> bool" where
  "is_finite (Finite s m e) = True"
| "is_finite (Infinity s) = False"
| "is_finite NaN = False"

fun is_zero :: "fp \<Rightarrow> bool" where
  "is_zero (Finite s m e) = (m = 0)"
| "is_zero (Infinity s) = False"
| "is_zero NaN = False"


subsection \<open>The attention bias of \<^verbatim>\<open>MaskedLMWrapper.forward\<close> (lines 48 and 49)\<close>

text \<open>
  Tensors are nested lists, one level of nesting for each dimension. The attention mask
  holds integers (\<^verbatim>\<open>torch.long\<close> when the wrapper is traced).
\<close>

type_synonym 'a tensor2 = "'a list list"
type_synonym 'a tensor3 = "'a list list list"
type_synonym 'a tensor4 = "'a list list list list"

definition has_shape2 :: "'a tensor2 \<Rightarrow> nat \<Rightarrow> nat \<Rightarrow> bool" where
  "has_shape2 t a b \<longleftrightarrow> length t = a \<and> list_all (\<lambda>row. length row = b) t"

definition has_shape4 :: "'a tensor4 \<Rightarrow> nat \<Rightarrow> nat \<Rightarrow> nat \<Rightarrow> nat \<Rightarrow> bool" where
  "has_shape4 t a b c d \<longleftrightarrow>
     length t = a \<and>
     list_all (\<lambda>x. length x = b \<and>
       list_all (\<lambda>y. length y = c \<and> list_all (\<lambda>row. length row = d) y) x) t"

text \<open>\<^verbatim>\<open>t.unsqueeze(1)\<close> on a tensor of two dimensions, \<^verbatim>\<open>t.unsqueeze(2)\<close> on one of three.\<close>

definition unsqueeze1 :: "'a tensor2 \<Rightarrow> 'a tensor3" where
  "unsqueeze1 t = map (\<lambda>row. [row]) t"

definition unsqueeze2 :: "'a tensor3 \<Rightarrow> 'a tensor4" where
  "unsqueeze2 t = map (map (\<lambda>row. [row])) t"

definition map4 :: "('a \<Rightarrow> 'b) \<Rightarrow> 'a tensor4 \<Rightarrow> 'b tensor4" where
  "map4 f t = map (map (map (map f))) t"

definition to_float32 :: "int tensor4 \<Rightarrow> fp tensor4" where
  "to_float32 t = map4 (fp_of_int binary32) t"

text \<open>
  A Python float that meets a \<^verbatim>\<open>float32\<close> tensor in an arithmetic operation is
  converted to \<^verbatim>\<open>float32\<close>, and the operation is done in \<^verbatim>\<open>float32\<close>, element by
  element. The literal \<^verbatim>\<open>3.4028e+38\<close> is the integer \<open>34028 * 10 ^ 34\<close>, which Python
  rounds to binary64.
\<close>

definition py_one :: fp where
  "py_one = fp_of_int binary64 1"

definition py_large_negative :: fp where
  "py_large_negative = fneg (fp_of_int binary64 (34028 * 10 ^ 34))"

definition scalar_sub :: "fp \<Rightarrow> fp tensor4 \<Rightarrow> fp tensor4" where
  "scalar_sub a t = map4 (\<lambda>x. fsub binary32 (fcast binary32 a) x) t"

definition mul_scalar :: "fp tensor4 \<Rightarrow> fp \<Rightarrow> fp tensor4" where
  "mul_scalar t a = map4 (\<lambda>x. fmul binary32 x (fcast binary32 a)) t"

definition extended_mask :: "int tensor2 \<Rightarrow> fp tensor4" where
  "extended_mask attention_mask =
     (let extended_mask = to_float32 (unsqueeze2 (unsqueeze1 attention_mask))
      in mul_scalar (scalar_sub py_one extended_mask) py_large_negative)"

text \<open>
  The entry of the result for an entry \<open>m\<close> of the mask: the operations above work
  element by element.
\<close>

definition bias_of :: "int \<Rightarrow> fp" where
  "bias_of m =
     fmul binary32
       (fsub binary32 (fcast binary32 py_one) (fp_of_int binary32 m))
       (fcast binary32 py_large_negative)"

text \<open>
  The rest of \<^verbatim>\<open>forward\<close> calls the embedding layer, the encoder and the prediction head
  of the loaded model, which are code of the \<^verbatim>\<open>transformers\<close> library: they are
  fields of the model, functions of their arguments. The constructor of the wrapper
  takes \<^verbatim>\<open>hf_model.bert\<close> and \<^verbatim>\<open>hf_model.cls\<close> and registers the buffer
  \<^verbatim>\<open>torch.arange(max_seq_len).unsqueeze(0)\<close>.
\<close>

record ('e, 'h) bert_model =
  embeddings :: "int tensor2 \<Rightarrow> int tensor2 \<Rightarrow> int tensor2 \<Rightarrow> 'e"
  encoder :: "'e \<Rightarrow> fp tensor4 \<Rightarrow> 'h list"

record ('e, 'h, 'o) hf_model =
  hf_bert :: "('e, 'h) bert_model"
  hf_cls :: "'h \<Rightarrow> 'o"

record ('e, 'h, 'o) wrapper =
  bert :: "('e, 'h) bert_model"
  cls :: "'h \<Rightarrow> 'o"
  position_ids :: "int tensor2"

definition MaskedLMWrapper :: "('e, 'h, 'o) hf_model \<Rightarrow> nat \<Rightarrow> ('e, 'h, 'o) wrapper" where
  "MaskedLMWrapper hf max_seq_len =
     \<lparr>bert = hf_bert hf, cls = hf_cls hf, position_ids = [map int [0 ..< max_seq_len]]\<rparr>"

text \<open>
  \<^verbatim>\<open>forward\<close>, with the attention bias of lines 48 and 49 as defined above.
  \<^verbatim>\<open>encoder_output[0]\<close> raises IndexError on an empty tuple.
\<close>

definition forward ::
  "('e, 'h, 'o) wrapper \<Rightarrow> int tensor2 \<Rightarrow> int tensor2 \<Rightarrow> int tensor2 \<Rightarrow> 'o option" where
  "forward self input_ids attention_mask token_type_ids =
     (let embedding_output = embeddings (bert self) input_ids (position_ids self) token_type_ids;
          encoder_output = encoder (bert self) embedding_output (extended_mask attention_mask)
      in case encoder_output of
           [] \<Rightarrow> None
         | sequence_output # _ \<Rightarrow> Some (cls self sequence_output))"


subsection \<open>The file system and the library calls\<close>

text \<open>
  \<^verbatim>\<open>main\<close> changes the file system and calls the \<^verbatim>\<open>transformers\<close>, \<^verbatim>\<open>torch\<close> and
  \<^verbatim>\<open>coremltools\<close> libraries. The state is the file system, a map from paths to files
  and directories, together with the list of the calls made so far and the list of
  the executions of the wrapper. A Python exception
  is an error value; the state reached when it is raised is kept, since nothing in
  the script undoes a write.
\<close>

type_synonym path = "string list"

datatype node = File string | Dir

type_synonym fs = "path \<Rightarrow> node option"

datatype error =
    LoadError | TraceError | ConversionError | QuantizationError | SaveError
  | FileExistsError | NotADirectoryError | IsADirectoryError | FileNotFoundError
  | UnicodeEncodeError | IndexError

datatype np_dtype = Int8 | Int32 | Float16 | Float32

datatype target = MacOS13 | MacOS14 | MacOS15

record tensor_type =
  name :: string
  shape :: "nat list option"
  dtype :: "np_dtype option"

datatype call =
    AutoTokenizer_from_pretrained string
  | AutoModelForMaskedLM_from_pretrained string string
  | Mkdir path
  | Open_write path
  | Jit_trace "int tensor2" "int tensor2" "int tensor2"
  | Ct_convert "tensor_type list" "tensor_type list" string target
  | Affine_quantize_weights string np_dtype
  | Rmtree path
  | Save path

text \<open>
  An execution of \<^verbatim>\<open>forward\<close>: the position ids of the wrapper that is executed and the
  three arguments.
\<close>

datatype execution = Forward "int tensor2" "int tensor2" "int tensor2" "int tensor2"

record world =
  files :: fs
  calls :: "call list"
  executions :: "execution list"

type_synonym 'a io = "world \<Rightarrow> (error + 'a) \<times> world"

definition return :: "'a \<Rightarrow> 'a io" where
  "return x w = (Inr x, w)"

definition bind :: "'a io \<Rightarrow> ('a \<Rightarrow> 'b io) \<Rightarrow> 'b io" where
  "bind f g w = (case f w of (Inl e, w') \<Rightarrow> (Inl e, w') | (Inr x, w') \<Rightarrow> g x w')"

definition record_call :: "call \<Rightarrow> world \<Rightarrow> world" where
  "record_call c w = w\<lparr>calls := calls w @ [c]\<rparr>"

text \<open>
  A library call is recorded, and either returns a value or raises; which of the two,
  and the value, is the library's matter: \<open>None\<close> stands for an exception.
\<close>

definition library :: "call \<Rightarrow> error \<Rightarrow> 'a option \<Rightarrow> 'a io" where
  "library c e r w =
     (case r of None \<Rightarrow> (Inl e, record_call c w) | Some x \<Rightarrow> (Inr x, record_call c w))"

text \<open>\<^verbatim>\<open>Path.mkdir(parents=True, exist_ok=True)\<close>.\<close>

definition is_file :: "fs \<Rightarrow> path \<Rightarrow> bool" where
  "is_file f p = (case f p of Some (File _) \<Rightarrow> True | _ \<Rightarrow> False)"

definition mkdir :: "path \<Rightarrow> unit io" where
  "mkdir p w =
     (let w' = record_call (Mkdir p) w
      in if is_file (files w) p then (Inl FileExistsError, w')
         else if list_ex (is_file (files w)) (prefixes p) then (Inl NotADirectoryError, w')
         else (Inr (), w'\<lparr>files := (\<lambda>q. if prefix q p then Some Dir else files w q)\<rparr>))"

text \<open>
  \<^verbatim>\<open>f.write(s)\<close> on a file opened with \<^verbatim>\<open>encoding="utf-8"\<close>, whose content so far is
  \<open>f\<close>: the string is encoded as a whole, and a string with a lone surrogate raises
  \<^verbatim>\<open>UnicodeEncodeError\<close> before any of it is written.
\<close>

definition f_write :: "string \<Rightarrow> string \<Rightarrow> error + string" where
  "f_write f s = (if has_surrogate s then Inl UnicodeEncodeError else Inr (f @ s))"

text \<open>
  The loop \<^verbatim>\<open>for token, _ in ordered: f.write(token + "\n")\<close> on the open file: it
  stops at the first write that raises, and the file keeps what was written before.
\<close>

fun write_loop :: "vocab \<Rightarrow> string \<Rightarrow> (error + unit) \<times> string" where
  "write_loop [] f = (Inr (), f)"
| "write_loop ((token, _) # rest) f =
     (case f_write f (token @ [newline]) of
        Inl e \<Rightarrow> (Inl e, f)
      | Inr f' \<Rightarrow> write_loop rest f')"

text \<open>
  \<^verbatim>\<open>with open(vocab_path, "w", encoding="utf-8") as f\<close> and the loop in its body: the
  file is created or truncated, the loop runs, and the file is closed with what the
  loop wrote, also when the loop raises.
\<close>

definition write_vocab :: "path \<Rightarrow> vocab \<Rightarrow> unit io" where
  "write_vocab p items w =
     (let w' = record_call (Open_write p) w
      in case files w (butlast p) of
           None \<Rightarrow> (Inl FileNotFoundError, w')
         | Some (File _) \<Rightarrow> (Inl NotADirectoryError, w')
         | Some Dir \<Rightarrow>
             (case files w p of
                Some Dir \<Rightarrow> (Inl IsADirectoryError, w')
              | _ \<Rightarrow>
                  (case write_loop items [] of
                     (r, content) \<Rightarrow> (r, w'\<lparr>files := (files w)(p \<mapsto> File content)\<rparr>))))"

definition exists :: "path \<Rightarrow> bool io" where
  "exists p w = (Inr (files w p \<noteq> None), w)"

text \<open>\<^verbatim>\<open>shutil.rmtree\<close> removes a directory and everything below it.\<close>

definition rmtree :: "path \<Rightarrow> unit io" where
  "rmtree p w =
     (let w' = record_call (Rmtree p) w
      in case files w p of
           None \<Rightarrow> (Inl FileNotFoundError, w')
         | Some (File _) \<Rightarrow> (Inl NotADirectoryError, w')
         | Some Dir \<Rightarrow> (Inr (), w'\<lparr>files := (\<lambda>q. if prefix p q then None else files w q)\<rparr>))"

text \<open>
  \<^verbatim>\<open>MLModel.save\<close> writes the package, a directory with the files of the model below
  it, listed by their paths inside the package. Nothing is assumed about what it does
  to files that are already below the destination: they stay.
\<close>

definition save :: "(path \<times> node) list option \<Rightarrow> path \<Rightarrow> unit io" where
  "save package p w =
     (let w' = record_call (Save p) w
      in case package of
           None \<Rightarrow> (Inl SaveError, w')
         | Some entries \<Rightarrow>
             (Inr (), w'\<lparr>files :=
                (\<lambda>q. if q = p then Some Dir
                     else if prefix p q then
                       (case map_of entries (drop (length p) q) of
                          Some n \<Rightarrow> Some n
                        | None \<Rightarrow> files w q)
                     else files w q)\<rparr>))"


subsection \<open>\<^verbatim>\<open>main\<close>\<close>

definition MODEL_NAME :: string where
  "MODEL_NAME = ''dicta-il/dictabert''"

definition MAX_SEQ_LEN :: nat where
  "MAX_SEQ_LEN = 128"

text \<open>
  What the script takes from outside: the directory it is in, which fixes
  \<^verbatim>\<open>OUTPUT_DIR\<close>, the outcome of every library call, the numbers the random
  generator draws, and the number of times the tracer runs the module again after it
  has recorded it.
\<close>

record tokenizer =
  get_vocab :: vocab

record ('e, 'h, 'o, 't, 'c) env =
  OUTPUT_DIR :: path
  tokenizer_from_pretrained :: "string \<Rightarrow> tokenizer option"
  model_from_pretrained :: "string \<Rightarrow> string \<Rightarrow> ('e, 'h, 'o) hf_model option"
  draws :: "nat \<Rightarrow> nat"
  trace_checks :: nat
  jit_trace ::
    "('e, 'h, 'o) wrapper \<Rightarrow> int tensor2 \<times> int tensor2 \<times> int tensor2 \<Rightarrow> 't option"
  ct_convert ::
    "'t \<Rightarrow> tensor_type list \<Rightarrow> tensor_type list \<Rightarrow> string \<Rightarrow> target \<Rightarrow> 'c option"
  affine_quantize_weights :: "'c \<Rightarrow> string \<Rightarrow> np_dtype \<Rightarrow> 'c option"
  package_files :: "'c \<Rightarrow> (path \<times> node) list option"

text \<open>
  \<^verbatim>\<open>torch.randint(low, high, size)\<close> fills a tensor of the given size with integers
  from \<open>low\<close> up to \<open>high - 1\<close>, chosen by the generator.
\<close>

definition randint :: "(nat \<Rightarrow> nat) \<Rightarrow> int \<Rightarrow> int \<Rightarrow> nat \<Rightarrow> nat \<Rightarrow> int tensor2" where
  "randint d low high rows cols =
     map (\<lambda>i. map (\<lambda>j. low + int (d (i * cols + j)) mod (high - low)) [0 ..< cols]) [0 ..< rows]"

definition ones :: "nat \<Rightarrow> nat \<Rightarrow> int tensor2" where
  "ones rows cols = replicate rows (replicate cols 1)"

definition zeros :: "nat \<Rightarrow> nat \<Rightarrow> int tensor2" where
  "zeros rows cols = replicate rows (replicate cols 0)"

definition vocab_path :: "('e, 'h, 'o, 't, 'c) env \<Rightarrow> path" where
  "vocab_path env = OUTPUT_DIR env @ [''vocab.txt'']"

definition mlpackage_path :: "('e, 'h, 'o, 't, 'c) env \<Rightarrow> path" where
  "mlpackage_path env = OUTPUT_DIR env @ [''DictaBERT_INT8.mlpackage'']"

definition dummy_ids :: "('e, 'h, 'o, 't, 'c) env \<Rightarrow> int tensor2" where
  "dummy_ids env = randint (draws env) 0 1000 1 MAX_SEQ_LEN"

definition dummy_mask :: "int tensor2" where
  "dummy_mask = ones 1 MAX_SEQ_LEN"

definition dummy_type_ids :: "int tensor2" where
  "dummy_type_ids = zeros 1 MAX_SEQ_LEN"

definition convert_inputs :: "tensor_type list" where
  "convert_inputs =
     [\<lparr>name = ''input_ids'', shape = Some [1, MAX_SEQ_LEN], dtype = Some Int32\<rparr>,
      \<lparr>name = ''attention_mask'', shape = Some [1, MAX_SEQ_LEN], dtype = Some Int32\<rparr>,
      \<lparr>name = ''token_type_ids'', shape = Some [1, MAX_SEQ_LEN], dtype = Some Int32\<rparr>]"

definition convert_outputs :: "tensor_type list" where
  "convert_outputs = [\<lparr>name = ''logits'', shape = None, dtype = None\<rparr>]"

text \<open>
  The section of \<^verbatim>\<open>main\<close> that exports the vocabulary (lines 77 to 86): the output
  directory is created, the items of the vocabulary are sorted by id, and the file is
  written.
\<close>

definition export_vocabulary :: "('e, 'h, 'o, 't, 'c) env \<Rightarrow> tokenizer \<Rightarrow> unit io" where
  "export_vocabulary env tokenizer =
     bind (mkdir (OUTPUT_DIR env)) (\<lambda>_.
     write_vocab (vocab_path env) (ordered (get_vocab tokenizer)))"

text \<open>
  \<^verbatim>\<open>torch.jit.trace(wrapper, inputs)\<close> executes the wrapper on the inputs to record its
  operations. An exception of \<^verbatim>\<open>forward\<close> ends the call; so does a failure of the
  tracer itself, \<open>None\<close> in the environment, during that execution. Otherwise the
  tracer returns the recorded graph, after it has executed the wrapper again for each
  check of the recording that it makes (with the default \<^verbatim>\<open>check_trace\<close>, which the
  script does not switch off); their number is the library's matter.
\<close>

definition torch_jit_trace ::
  "('e, 'h, 'o, 't, 'c) env \<Rightarrow> ('e, 'h, 'o) wrapper \<Rightarrow>
   int tensor2 \<times> int tensor2 \<times> int tensor2 \<Rightarrow> 't io" where
  "torch_jit_trace env wrapper inputs w =
     (case inputs of (input_ids, attention_mask, token_type_ids) \<Rightarrow>
        let w' = record_call (Jit_trace input_ids attention_mask token_type_ids) w;
            run = Forward (position_ids wrapper) input_ids attention_mask token_type_ids
        in case forward wrapper input_ids attention_mask token_type_ids of
             None \<Rightarrow> (Inl IndexError, w'\<lparr>executions := executions w' @ [run]\<rparr>)
           | Some prediction_scores \<Rightarrow>
               (case jit_trace env wrapper inputs of
                  None \<Rightarrow> (Inl TraceError, w'\<lparr>executions := executions w' @ [run]\<rparr>)
                | Some traced \<Rightarrow>
                    (Inr traced,
                     w'\<lparr>executions :=
                          executions w' @ replicate (Suc (trace_checks env)) run\<rparr>)))"

text \<open>
  The statements of \<^verbatim>\<open>main\<close> in their order. \<^verbatim>\<open>print\<close>, \<^verbatim>\<open>model.eval()\<close>,
  \<^verbatim>\<open>wrapper.eval()\<close> and \<^verbatim>\<open>torch.no_grad()\<close> change neither the files nor the
  arguments of a later call and are left out, as is the size of the package, which is
  computed only to be printed.
\<close>

definition main :: "('e, 'h, 'o, 't, 'c) env \<Rightarrow> fs \<Rightarrow> (error + unit) \<times> world" where
  "main env fs0 =
     bind (library (AutoTokenizer_from_pretrained MODEL_NAME) LoadError
             (tokenizer_from_pretrained env MODEL_NAME)) (\<lambda>tokenizer.
     bind (library (AutoModelForMaskedLM_from_pretrained MODEL_NAME ''eager'') LoadError
             (model_from_pretrained env MODEL_NAME ''eager'')) (\<lambda>model.
     bind (export_vocabulary env tokenizer) (\<lambda>_.
     bind (torch_jit_trace env (MaskedLMWrapper model MAX_SEQ_LEN)
             (dummy_ids env, dummy_mask, dummy_type_ids)) (\<lambda>traced.
     bind (library (Ct_convert convert_inputs convert_outputs ''mlprogram'' MacOS14)
             ConversionError
             (ct_convert env traced convert_inputs convert_outputs ''mlprogram'' MacOS14))
          (\<lambda>mlmodel.
     bind (library (Affine_quantize_weights ''linear'' Int8) QuantizationError
             (affine_quantize_weights env mlmodel ''linear'' Int8)) (\<lambda>mlmodel_int8.
     bind (exists (mlpackage_path env)) (\<lambda>found.
     bind (if found then rmtree (mlpackage_path env) else return ()) (\<lambda>_.
     save (package_files env mlmodel_int8) (mlpackage_path env)))))))))
       \<lparr>files = fs0, calls = [], executions = []\<rparr>"

text \<open>
  The calls of a run of \<^verbatim>\<open>main\<close> in which no statement fails, where \<open>found\<close> tells
  whether the package path exists when the script asks.
\<close>

definition script_calls :: "('e, 'h, 'o, 't, 'c) env \<Rightarrow> bool \<Rightarrow> call list" where
  "script_calls env found =
     [AutoTokenizer_from_pretrained MODEL_NAME,
      AutoModelForMaskedLM_from_pretrained MODEL_NAME ''eager'',
      Mkdir (OUTPUT_DIR env),
      Open_write (vocab_path env),
      Jit_trace (dummy_ids env) dummy_mask dummy_type_ids,
      Ct_convert convert_inputs convert_outputs ''mlprogram'' MacOS14,
      Affine_quantize_weights ''linear'' Int8]
     @ (if found then [Rmtree (mlpackage_path env)] else [])
     @ [Save (mlpackage_path env)]"


fun is_convert :: "call \<Rightarrow> bool" where
  "is_convert (Ct_convert a b c d) = True"
| "is_convert _ = False"


text \<open>The errors of the three model stages between the vocabulary file and the package.\<close>

definition model_error :: "error \<Rightarrow> bool" where
  "model_error e \<longleftrightarrow> e = TraceError \<or> e = ConversionError \<or> e = QuantizationError"

text \<open>
  An environment for worked examples: a tokenizer of two tokens, library calls that
  succeed (the conversion only if \<open>convertible\<close>), a tracer that checks its recording
  once, and a package with the given files.
\<close>

definition example_env :: "(path \<times> node) list \<Rightarrow> bool \<Rightarrow> (unit, unit, unit, unit, unit) env" where
  "example_env package convertible =
     \<lparr>OUTPUT_DIR = [''Resources''],
      tokenizer_from_pretrained = (\<lambda>_. Some \<lparr>get_vocab = [(''b'', 1), (''a'', 0)]\<rparr>),
      model_from_pretrained =
        (\<lambda>_ _. Some \<lparr>hf_bert = \<lparr>embeddings = (\<lambda>_ _ _. ()), encoder = (\<lambda>_ _. [()])\<rparr>,
                      hf_cls = (\<lambda>_. ())\<rparr>),
      draws = (\<lambda>n. 7919 * n),
      trace_checks = 1,
      jit_trace = (\<lambda>_ _. Some ()),
      ct_convert = (\<lambda>_ _ _ _ _. if convertible then Some () else None),
      affine_quantize_weights = (\<lambda>c _ _. Some c),
      package_files = (\<lambda>_. Some package)\<rparr>"


subsection \<open>Properties of the vocabulary export\<close>

lemma write_tokens_concat:
  "write_tokens xs f = f @ concat (map (\<lambda>kv. fst kv @ [newline]) xs)"
  by (induction xs f rule: write_tokens.induct) simp_all

lemma vocab_text_concat:
  "vocab_text vocab = concat (map (\<lambda>kv. fst kv @ [newline]) (ordered vocab))"
  by (simp add: vocab_text_def write_tokens_concat)

lemma file_lines_record:
  "newline \<notin> set t \<Longrightarrow> file_lines (t @ newline # rest) = t # file_lines rest"
  by (induction t) auto

lemma file_lines_records:
  "\<forall>t \<in> set ts. newline \<notin> set t \<Longrightarrow>
   file_lines (concat (map (\<lambda>t. t @ [newline]) ts)) = ts"
  by (induction ts) (simp_all add: file_lines_record)




lemma sorted_ids_ordered: "sorted (map snd (ordered vocab))"
  by (simp add: ordered_def)

lemma mset_ordered: "mset (ordered vocab) = mset vocab"
  by (simp add: ordered_def)

lemma set_ordered: "set (ordered vocab) = set vocab"
  by (simp add: ordered_def)

lemma length_ordered: "length (ordered vocab) = length vocab"
  by (simp add: ordered_def)

lemma newline_free_lines:
  assumes "newline_free vocab"
  shows "file_lines (vocab_text vocab) = map fst (ordered vocab)"
proof -
  have "\<forall>t \<in> set (map fst (ordered vocab)). newline \<notin> set t"
    using assms by (auto simp: newline_free_def set_ordered)
  then have "file_lines (concat (map (\<lambda>t. t @ [newline]) (map fst (ordered vocab))))
      = map fst (ordered vocab)"
    by (rule file_lines_records)
  then show ?thesis
    by (simp add: vocab_text_concat comp_def)
qed







subsection \<open>Claims about the vocabulary file\<close>







subsection \<open>Rounding and the entries of the attention bias\<close>

text \<open>
  The constants of the script and the entries for the mask values 0, 1 and 2 are
  computed by unfolding the definitions, given the bit lengths of the numbers involved.
\<close>

lemma bitlen_eqI:
  assumes "2 ^ k \<le> x" and "x < 2 ^ Suc k"
  shows "bitlen x = int (Suc k)"
proof -
  have "bitlen x \<le> int (Suc k)"
    using assms(2) by (simp add: bitlen_le_iff_power del: of_nat_Suc)
  moreover have "int (Suc k) \<le> bitlen x"
    using assms(1) by (simp add: bitlen_ge_iff_power del: of_nat_Suc)
  ultimately show ?thesis by simp
qed

lemma bitlen_values:
  "bitlen 1 = 1"
  "bitlen 2 = 2"
  "bitlen 8388608 = 24"
  "bitlen 16777099 = 24"
  "bitlen 4503599627370496 = 53"
  "bitlen 9007136602865416 = 53"
  "bitlen 140736506888192 = 47"
  "bitlen 340280000000000000000000000000000000000 = 128"
  using bitlen_eqI [of 0 1] bitlen_eqI [of 1 2] bitlen_eqI [of 23 8388608] bitlen_eqI [of 23 16777099]
    bitlen_eqI [of 52 4503599627370496] bitlen_eqI [of 52 9007136602865416]
    bitlen_eqI [of 46 140736506888192]
    bitlen_eqI [of 127 340280000000000000000000000000000000000]
  by simp_all

lemma format_fields:
  "precision binary32 = 24" "emin binary32 = - 149" "emax binary32 = 128"
  "precision binary64 = 53" "emin binary64 = - 1074" "emax binary64 = 1024"
  by (simp_all add: binary32_def binary64_def)

lemmas fp_eval = fp_of_int_def round_fp_def round_nearest_even_def format_fields
  Let_def fsub_def signed_def bitlen_values

lemma py_one_eq: "py_one = Finite False 4503599627370496 (- 52)"
  by (simp add: py_one_def fp_eval)

lemma py_large_negative_eq: "py_large_negative = Finite True 9007136602865416 75"
  by (simp add: py_large_negative_def fp_eval)

lemma one32: "fcast binary32 py_one = Finite False 8388608 (- 23)"
  by (simp add: py_one_eq fp_eval)

lemma large32: "fcast binary32 py_large_negative = Finite True 16777099 104"
  by (simp add: py_large_negative_eq fp_eval)

lemma bias_of_1: "bias_of 1 = Finite True 0 0"
  by (simp add: bias_of_def one32 large32 fp_eval)

lemma bias_of_0: "bias_of 0 = Finite True 16777099 104"
  by (simp add: bias_of_def one32 large32 fp_eval)


text \<open>
  For the other mask values: a number that is not in the subnormal range is rounded
  to a significand of at least \<open>2 ^ 23\<close>, and a number of magnitude \<open>2 ^ 128\<close> or more is
  rounded to an infinity.
\<close>

lemma bitlen_nat_geI: "2 ^ k \<le> (m::nat) \<Longrightarrow> int (Suc k) \<le> bitlen (int m)"
  by (simp add: bitlen_ge_iff_power del: of_nat_Suc)

lemma bitlen_nat_geD: "int (Suc k) \<le> bitlen (int m) \<Longrightarrow> 2 ^ k \<le> (m::nat)"
  by (simp add: bitlen_ge_iff_power del: of_nat_Suc)

lemma bitlen_nat_shift: "0 < m \<Longrightarrow> bitlen (int (m * 2 ^ k)) = bitlen (int m) + int k"
  using bitlen_pow2 [of "int m" k] by simp

lemma round_nearest_even_lower: "m div 2 ^ k \<le> round_nearest_even m k"
  by (simp add: round_nearest_even_def Let_def)


lemma rounded_significand:
  fixes m :: nat and e :: int
  assumes "0 < m"
  defines "e' \<equiv> e + bitlen (int m) - 24"
  defines "m' \<equiv> (if e' \<le> e then m * 2 ^ nat (e - e') else round_nearest_even m (nat (e' - e)))"
  shows "2 ^ 23 \<le> m'"
proof (cases "e' \<le> e")
  case True
  have "bitlen (int (m * 2 ^ nat (e - e'))) = bitlen (int m) + int (nat (e - e'))"
    using assms(1) by (rule bitlen_nat_shift)
  also have "\<dots> = int (Suc 23)"
    using True by (simp add: e'_def)
  finally have "2 ^ 23 \<le> m * 2 ^ nat (e - e')"
    by (intro bitlen_nat_geD) simp
  then show ?thesis
    using True by (simp add: m'_def)
next
  case False
  define k where "k = nat (e' - e)"
  have b: "bitlen (int m) = int (Suc (k + 23))"
    using False by (simp add: k_def e'_def)
  have "2 ^ (k + 23) \<le> m"
    by (intro bitlen_nat_geD) (simp add: b)
  then have "(2::nat) ^ (k + 23) div 2 ^ k \<le> m div 2 ^ k"
    by (rule div_le_mono)
  moreover have "(2::nat) ^ (k + 23) div 2 ^ k = 2 ^ 23"
    by (simp add: power_add)
  ultimately have "(2::nat) ^ 23 \<le> m div 2 ^ k"
    by simp
  also have "\<dots> \<le> round_nearest_even m k"
    by (rule round_nearest_even_lower)
  finally show ?thesis
    using False by (simp add: m'_def k_def)
qed


lemma round_fp_normal:
  assumes "0 < m" and "- 125 \<le> bitlen (int m) + e"
  shows "round_fp binary32 s m e = Infinity s \<or>
    (\<exists>m'. round_fp binary32 s m e = Finite s m' (e + bitlen (int m) - 24) \<and> 2 ^ 23 \<le> m')"
proof -
  have "max (e + bitlen (int m) - 24) (- 149) = e + bitlen (int m) - 24"
    using assms(2) by simp
  then show ?thesis
    using rounded_significand [OF assms(1), of e] assms(1)
    by (simp add: round_fp_def format_fields Let_def)
qed

lemma round_fp_overflow:
  assumes "0 < m" and "129 \<le> bitlen (int m) + e"
  shows "round_fp binary32 s m e = Infinity s"
proof -
  define e' where "e' = e + bitlen (int m) - 24"
  define m' where
    "m' = (if e' \<le> e then m * 2 ^ nat (e - e') else round_nearest_even m (nat (e' - e)))"
  have "2 ^ 23 \<le> m'"
    unfolding m'_def e'_def using assms(1) by (rule rounded_significand)
  then have "int (Suc 23) \<le> bitlen (int m')"
    by (rule bitlen_nat_geI)
  then have over: "128 < bitlen (int m') + e'"
    using assms(2) by (simp add: e'_def)
  have "max (e + bitlen (int m) - 24) (- 149) = e'"
    using assms(2) by (simp add: e'_def)
  then show ?thesis
    using over assms(1) by (simp add: round_fp_def format_fields Let_def m'_def)
qed

lemma round_fp_small_int:
  assumes "0 < m" and "m < 2 ^ 24"
  shows "round_fp binary32 s m 0 =
    Finite s (m * 2 ^ nat (24 - bitlen (int m))) (bitlen (int m) - 24)"
proof -
  have le: "bitlen (int m) \<le> 24"
    using assms(2) less_power_nat_iff_bitlen [of m 24] by simp
  have "bitlen (int (m * 2 ^ nat (24 - bitlen (int m)))) =
      bitlen (int m) + int (nat (24 - bitlen (int m)))"
    using assms(1) by (rule bitlen_nat_shift)
  then have "bitlen (int (m * 2 ^ nat (24 - bitlen (int m)))) = 24"
    using le by simp
  moreover have "max (bitlen (int m) - 24) (- 149) = bitlen (int m) - 24"
    using bitlen_nonneg [of "int m"] by simp
  ultimately show ?thesis
    using le assms(1) by (simp add: round_fp_def format_fields Let_def)
qed


lemma bias_of_2: "bias_of 2 = Finite False 16777099 104"
  by (simp add: bias_of_def one32 large32 fp_eval)

lemma fp_of_int_ge_3:
  assumes "3 \<le> i"
  shows "fp_of_int binary32 i = Infinity False \<or>
    (\<exists>m e. fp_of_int binary32 i = Finite False m e \<and> - 23 \<le> e \<and>
       3 * 2 ^ 23 \<le> m * 2 ^ nat (e + 23))"
proof -
  define n where "n = nat \<bar>i\<bar>"
  have n: "3 \<le> n" and eq: "fp_of_int binary32 i = round_fp binary32 False n 0"
    using assms by (simp_all add: n_def fp_of_int_def)
  have b1: "int (Suc 1) \<le> bitlen (int n)"
    using n by (intro bitlen_nat_geI) simp
  show ?thesis
  proof (cases "n < 2 ^ 24")
    case True
    define b where "b = bitlen (int n)"
    have b: "2 \<le> b" "b \<le> 24"
      using b1 True less_power_nat_iff_bitlen [of n 24] by (simp_all add: b_def)
    have rf: "round_fp binary32 False n 0 = Finite False (n * 2 ^ nat (24 - b)) (b - 24)"
      unfolding b_def using n True by (intro round_fp_small_int) simp_all
    have "nat (24 - b) + nat (b - 24 + 23) = 23"
      using b by simp
    then have "(2::nat) ^ nat (24 - b) * 2 ^ nat (b - 24 + 23) = 2 ^ 23"
      by (simp flip: power_add)
    then have prod: "n * 2 ^ nat (24 - b) * 2 ^ nat (b - 24 + 23) = n * 2 ^ 23"
      by (simp add: mult.assoc)
    have ge: "3 * 2 ^ 23 \<le> n * 2 ^ nat (24 - b) * 2 ^ nat (b - 24 + 23)"
      unfolding prod using n by simp
    have "- 23 \<le> b - 24"
      using b by simp
    with rf ge show ?thesis
      unfolding eq by blast
  next
    case False
    then have "2 ^ 24 \<le> n"
      by simp
    then have b: "int (Suc 24) \<le> bitlen (int n)"
      by (rule bitlen_nat_geI)
    have "round_fp binary32 False n 0 = Infinity False \<or>
      (\<exists>m'. round_fp binary32 False n 0 = Finite False m' (0 + bitlen (int n) - 24) \<and> 2 ^ 23 \<le> m')"
      using n b by (intro round_fp_normal) simp_all
    then show ?thesis
    proof
      assume "round_fp binary32 False n 0 = Infinity False"
      then show ?thesis by (simp add: eq)
    next
      assume "\<exists>m'. round_fp binary32 False n 0 = Finite False m' (0 + bitlen (int n) - 24) \<and> 2 ^ 23 \<le> m'"
      then obtain m' where m': "round_fp binary32 False n 0 = Finite False m' (bitlen (int n) - 24)"
        "2 ^ 23 \<le> m'"
        by auto
      have "2 \<le> nat (bitlen (int n) - 24 + 23)"
        using b by simp
      then have "(2::nat) ^ 2 \<le> 2 ^ nat (bitlen (int n) - 24 + 23)"
        by (intro power_increasing) simp_all
      with m'(2) have "(2::nat) ^ 23 * 2 ^ 2 \<le> m' * 2 ^ nat (bitlen (int n) - 24 + 23)"
        by (rule mult_le_mono)
      then have "3 * 2 ^ 23 \<le> m' * 2 ^ nat (bitlen (int n) - 24 + 23)"
        by simp
      then show ?thesis
        using m'(1) b by (simp add: eq)
    qed
  qed
qed


lemma one_minus_ge_3:
  assumes "- 23 \<le> e" and "3 * 2 ^ 23 \<le> m * 2 ^ nat (e + 23)"
  shows "fsub binary32 (Finite False 8388608 (- 23)) (Finite False m e) = Infinity True \<or>
    (\<exists>m' e'. fsub binary32 (Finite False 8388608 (- 23)) (Finite False m e) = Finite True m' e' \<and>
       2 ^ 23 \<le> m' \<and> - 22 \<le> e')"
proof -
  define d where "d = m * 2 ^ nat (e + 23) - 2 ^ 23"
  have d: "2 ^ 24 \<le> d"
    using assms(2) by (simp add: d_def)
  have "8388608 - int m * 2 ^ nat (e + 23) = - int d"
    using assms(2) by (simp add: d_def of_nat_diff)
  then have eq: "fsub binary32 (Finite False 8388608 (- 23)) (Finite False m e) =
      round_fp binary32 True d (- 23)"
    using assms(1) d by (simp add: fsub_def signed_def Let_def min_def)
  have b: "int (Suc 24) \<le> bitlen (int d)"
    using d by (rule bitlen_nat_geI)
  have "round_fp binary32 True d (- 23) = Infinity True \<or>
    (\<exists>m'. round_fp binary32 True d (- 23) = Finite True m' (- 23 + bitlen (int d) - 24) \<and>
       2 ^ 23 \<le> m')"
    using d b by (intro round_fp_normal) simp_all
  moreover have "- 22 \<le> - 23 + bitlen (int d) - 24"
    using b by simp
  ultimately show ?thesis
    unfolding eq by blast
qed

lemma mul_large_overflow:
  assumes "2 ^ 23 \<le> m" and "- 22 \<le> e"
  shows "fmul binary32 (Finite True m e) (Finite True 16777099 104) = Infinity False"
proof -
  have "(2::nat) ^ 23 * 2 ^ 23 \<le> m * 16777099"
    using assms(1) by (intro mult_le_mono) simp_all
  then have "(2::nat) ^ 46 \<le> m * 16777099"
    by simp
  then have "int (Suc 46) \<le> bitlen (int (m * 16777099))"
    by (rule bitlen_nat_geI)
  then have "129 \<le> bitlen (int (m * 16777099)) + (e + 104)"
    using assms(2) by simp
  moreover have "0 < m * 16777099"
    using assms(1) by simp
  ultimately have "round_fp binary32 False (m * 16777099) (e + 104) = Infinity False"
    by (intro round_fp_overflow)
  then show ?thesis
    by simp
qed

lemma bias_of_ge_3:
  assumes "3 \<le> i"
  shows "bias_of i = Infinity False"
proof -
  consider "fp_of_int binary32 i = Infinity False"
    | m e where "fp_of_int binary32 i = Finite False m e" "- 23 \<le> e"
        "3 * 2 ^ 23 \<le> m * 2 ^ nat (e + 23)"
    using fp_of_int_ge_3 [OF assms] by blast
  then show ?thesis
  proof cases
    case 1
    then show ?thesis
      by (simp add: bias_of_def one32 large32 fsub_def)
  next
    case 2
    have eq: "bias_of i =
        fmul binary32 (fsub binary32 (Finite False 8388608 (- 23)) (Finite False m e))
          (Finite True 16777099 104)"
      by (simp only: bias_of_def one32 large32 2(1))
    from one_minus_ge_3 [OF 2(2,3)] show ?thesis
    proof (elim disjE exE conjE)
      assume "fsub binary32 (Finite False 8388608 (- 23)) (Finite False m e) = Infinity True"
      then show ?thesis
        by (simp add: eq)
    next
      fix m' e'
      assume "fsub binary32 (Finite False 8388608 (- 23)) (Finite False m e) = Finite True m' e'"
        and "2 ^ 23 \<le> m'" and "- 22 \<le> e'"
      then show ?thesis
        by (simp only: eq mul_large_overflow)
    qed
  qed
qed


lemma extended_mask_entries:
  "extended_mask attention_mask = map (\<lambda>row. [[map bias_of row]]) attention_mask"
  by (simp add: extended_mask_def to_float32_def scalar_sub_def mul_scalar_def map4_def
      unsqueeze1_def unsqueeze2_def bias_of_def comp_def)

lemma has_shape2_one:
  assumes "has_shape2 t 1 L"
  obtains row where "t = [row]" and "length row = L"
proof -
  from assms have "length t = 1"
    by (simp add: has_shape2_def)
  then obtain row where t: "t = [row]"
    by (cases t) auto
  with assms have "length row = L"
    by (simp add: has_shape2_def)
  with t show thesis
    by (rule that)
qed

lemma extended_mask_row:
  assumes "has_shape2 attention_mask 1 L"
  shows "has_shape4 (extended_mask attention_mask) 1 1 1 L \<and>
    (\<forall>j < L. extended_mask attention_mask ! 0 ! 0 ! 0 ! j = bias_of (attention_mask ! 0 ! j))"
proof -
  from assms obtain row where "attention_mask = [row]" and "length row = L"
    by (rule has_shape2_one)
  then show ?thesis
    by (simp add: extended_mask_entries has_shape4_def)
qed

lemma valof_large: "valof (Finite True 16777099 104) \<le> - (10 ^ 38)"
  by (simp add: signed_def)

lemma valof_large_pos: "10 ^ 38 \<le> valof (Finite False 16777099 104)"
  by (simp add: signed_def)


subsection \<open>Claims about the attention bias\<close>

text \<open>
  C2: for every attention mask of shape \<open>[1, L]\<close> with entries 0 and 1, the attention bias
  has shape \<open>[1, 1, 1, L]\<close>; its entry at a position is \<open>(1 - m) * c\<close> computed in
  \<^verbatim>\<open>float32\<close> from the entry \<open>m\<close> of the mask at that position, cast to \<^verbatim>\<open>float32\<close>,
  with \<open>c\<close> the large negative constant. Where the mask is 1 the entry is a zero (the
  product of \<open>+0.0\<close> and a negative number, so its sign bit is set; it compares equal to
  \<open>0.0\<close>), and where the mask is 0 it is a finite number that is at most \<open>- 10 ^ 38\<close>.
\<close>

theorem attention_bias_binary_mask:
  assumes "has_shape2 attention_mask 1 L"
    and "list_all (list_all (\<lambda>m. m = 0 \<or> m = 1)) attention_mask"
  shows "has_shape4 (extended_mask attention_mask) 1 1 1 L \<and>
    (\<forall>j < L.
       extended_mask attention_mask ! 0 ! 0 ! 0 ! j = bias_of (attention_mask ! 0 ! j) \<and>
       (if attention_mask ! 0 ! j = 1
        then is_zero (extended_mask attention_mask ! 0 ! 0 ! 0 ! j)
        else attention_mask ! 0 ! j = 0 \<and>
          is_finite (extended_mask attention_mask ! 0 ! 0 ! 0 ! j) \<and>
          valof (extended_mask attention_mask ! 0 ! 0 ! 0 ! j) \<le> - (10 ^ 38)))"
proof (intro conjI allI impI)
  show "has_shape4 (extended_mask attention_mask) 1 1 1 L"
    using extended_mask_row [OF assms(1)] by (rule conjunct1)
next
  fix j assume "j < L"
  then show "extended_mask attention_mask ! 0 ! 0 ! 0 ! j = bias_of (attention_mask ! 0 ! j)"
    using extended_mask_row [OF assms(1)] by blast
next
  fix j assume j: "j < L"
  from assms(1) obtain row where row: "attention_mask = [row]" "length row = L"
    by (rule has_shape2_one)
  with assms(2) j have binary: "attention_mask ! 0 ! j = 0 \<or> attention_mask ! 0 ! j = 1"
    by (simp add: list_all_length)
  have eq: "extended_mask attention_mask ! 0 ! 0 ! 0 ! j = bias_of (attention_mask ! 0 ! j)"
    using extended_mask_row [OF assms(1)] j by blast
  show "if attention_mask ! 0 ! j = 1
    then is_zero (extended_mask attention_mask ! 0 ! 0 ! 0 ! j)
    else attention_mask ! 0 ! j = 0 \<and>
      is_finite (extended_mask attention_mask ! 0 ! 0 ! 0 ! j) \<and>
      valof (extended_mask attention_mask ! 0 ! 0 ! 0 ! j) \<le> - (10 ^ 38)"
  proof (cases "attention_mask ! 0 ! j = 1")
    case True
    then show ?thesis
      by (simp add: eq bias_of_1)
  next
    case False
    with binary have zero: "attention_mask ! 0 ! j = 0"
      by simp
    have "valof (Finite True 16777099 104) \<le> - (10 ^ 38)"
      by (rule valof_large)
    then show ?thesis
      by (simp only: eq zero bias_of_0 is_finite.simps) simp
  qed
qed

theorem attention_bias_binary_mask_witness:
  "has_shape2 [[1, 0, 1 :: int]] 1 3 \<and>
   list_all (list_all (\<lambda>m. m = 0 \<or> m = 1)) [[1, 0, 1 :: int]] \<and>
   has_shape4 (extended_mask [[1, 0, 1]]) 1 1 1 3 \<and>
   is_zero (extended_mask [[1, 0, 1]] ! 0 ! 0 ! 0 ! 0) \<and>
   valof (extended_mask [[1, 0, 1]] ! 0 ! 0 ! 0 ! 1) \<le> - (10 ^ 38) \<and>
   is_zero (extended_mask [[1, 0, 1]] ! 0 ! 0 ! 0 ! 2)"
proof -
  have h1: "has_shape2 [[1, 0, 1 :: int]] 1 3"
    by (simp add: has_shape2_def)
  have h2: "list_all (list_all (\<lambda>m. m = 0 \<or> m = 1)) [[1, 0, 1 :: int]]"
    by simp
  note th = attention_bias_binary_mask [OF h1 h2, THEN conjunct2, rule_format, THEN conjunct2]
  show ?thesis
    using h1 h2 attention_bias_binary_mask [OF h1 h2, THEN conjunct1] th [of 0] th [of 1] th [of 2]
    by simp
qed

text \<open>
  C10: the attention bias is computed for every integer mask, with no check of the
  entries: the entry for a mask entry \<open>m\<close> is \<open>(1 - m) * c\<close> in \<^verbatim>\<open>float32\<close>. For \<open>m = 2\<close>
  it is the large positive number \<open>- c\<close>, above \<open>10 ^ 38\<close>, and for every \<open>m\<close> from 3 on
  the product overflows to positive infinity: a positive bias, where a mask entry
  of 0 gives a negative one.
\<close>

theorem mask_out_of_range:
  assumes "has_shape2 attention_mask 1 L"
  shows "has_shape4 (extended_mask attention_mask) 1 1 1 L \<and>
    (\<forall>j < L.
       extended_mask attention_mask ! 0 ! 0 ! 0 ! j = bias_of (attention_mask ! 0 ! j) \<and>
       (attention_mask ! 0 ! j = 2 \<longrightarrow>
          extended_mask attention_mask ! 0 ! 0 ! 0 ! j = Finite False 16777099 104 \<and>
          10 ^ 38 \<le> valof (extended_mask attention_mask ! 0 ! 0 ! 0 ! j)) \<and>
       (3 \<le> attention_mask ! 0 ! j \<longrightarrow>
          extended_mask attention_mask ! 0 ! 0 ! 0 ! j = Infinity False))"
proof (intro conjI allI impI)
  show "has_shape4 (extended_mask attention_mask) 1 1 1 L"
    using extended_mask_row [OF assms(1)] by (rule conjunct1)
next
  fix j assume "j < L"
  then show "extended_mask attention_mask ! 0 ! 0 ! 0 ! j = bias_of (attention_mask ! 0 ! j)"
    using extended_mask_row [OF assms(1)] by blast
next
  fix j assume "j < L" and "attention_mask ! 0 ! j = 2"
  then show eq: "extended_mask attention_mask ! 0 ! 0 ! 0 ! j = Finite False 16777099 104"
    using extended_mask_row [OF assms(1)] by (simp add: bias_of_2)
  show "10 ^ 38 \<le> valof (extended_mask attention_mask ! 0 ! 0 ! 0 ! j)"
    unfolding eq by (rule valof_large_pos)
next
  fix j assume "j < L" and "3 \<le> attention_mask ! 0 ! j"
  then show "extended_mask attention_mask ! 0 ! 0 ! 0 ! j = Infinity False"
    using extended_mask_row [OF assms(1)] by (simp add: bias_of_ge_3)
qed

theorem mask_out_of_range_witness:
  "has_shape2 [[1, 2, 0, 5 :: int]] 1 4 \<and>
   extended_mask [[1, 2, 0, 5]] ! 0 ! 0 ! 0 ! 1 = Finite False 16777099 104 \<and>
   extended_mask [[1, 2, 0, 5]] ! 0 ! 0 ! 0 ! 3 = Infinity False"
proof -
  have h1: "has_shape2 [[1, 2, 0, 5 :: int]] 1 4"
    by (simp add: has_shape2_def)
  note th = mask_out_of_range [OF h1, THEN conjunct2, rule_format, THEN conjunct2]
  show ?thesis
    using h1 th [of 1] th [of 3] by simp
qed


subsection \<open>Runs of \<^verbatim>\<open>main\<close>\<close>

text \<open>
  The loop that writes the tokens ends with the whole text in the file exactly when
  every token can be encoded. The calls of any run are an initial part of
  \<open>script_calls\<close>; a run that succeeds, or that fails in a model stage, is described by
  the outcomes of its library calls; and \<^verbatim>\<open>forward\<close> is executed on the dummy inputs
  only.
\<close>

lemma has_surrogate_newline: "has_surrogate (t @ [newline]) = has_surrogate t"
  by (induction t rule: has_surrogate.induct) (auto simp: newline_def)

lemma write_loop_encodable:
  "list_all (\<lambda>kv. \<not> has_surrogate (fst kv)) items \<Longrightarrow>
   write_loop items f = (Inr (), write_tokens items f)"
  by (induction items f rule: write_loop.induct)
    (simp_all add: f_write_def has_surrogate_newline)

lemma write_loop_unencodable:
  "\<not> list_all (\<lambda>kv. \<not> has_surrogate (fst kv)) items \<Longrightarrow>
   fst (write_loop items f) = Inl UnicodeEncodeError"
  by (induction items f rule: write_loop.induct)
    (auto simp: f_write_def has_surrogate_newline)

lemma write_loop_Inr_iff:
  "write_loop items f = (Inr u, content) \<longleftrightarrow>
     list_all (\<lambda>kv. \<not> has_surrogate (fst kv)) items \<and> content = write_tokens items f"
  using write_loop_encodable [of items f] write_loop_unencodable [of items f]
  by (cases "list_all (\<lambda>kv. \<not> has_surrogate (fst kv)) items") auto

lemma encodable_ordered:
  "list_all (\<lambda>kv. \<not> has_surrogate (fst kv)) (ordered vocab) = encodable vocab"
  by (simp add: encodable_def list_all_iff set_ordered)

lemmas io_defs = bind_def return_def library_def record_call_def mkdir_def write_vocab_def
  exists_def rmtree_def save_def export_vocabulary_def torch_jit_trace_def Let_def

lemma main_calls_prefix:
  "prefix (calls (snd (main env fs0))) (script_calls env (fs0 (mlpackage_path env) \<noteq> None))"
  unfolding main_def script_calls_def
  by (auto simp: io_defs vocab_path_def mlpackage_path_def
      split: option.splits node.splits prod.splits sum.splits)

lemma bind_Inr_iff:
  "bind f g w = (Inr y, w'') \<longleftrightarrow> (\<exists>x w'. f w = (Inr x, w') \<and> g x w' = (Inr y, w''))"
  by (auto simp: bind_def split: prod.splits sum.splits)

lemma library_Inr_iff:
  "library c e r w = (Inr x, w') \<longleftrightarrow> r = Some x \<and> w' = record_call c w"
  by (auto simp: library_def split: option.splits)

lemma mkdir_Inr_iff:
  "mkdir p w = (Inr u, w') \<longleftrightarrow>
     \<not> list_ex (is_file (files w)) (prefixes p) \<and>
     w' = (record_call (Mkdir p) w)
            \<lparr>files := (\<lambda>q. if prefix q p then Some Dir else files w q)\<rparr>"
  by (auto simp: mkdir_def Let_def list_ex_iff)

lemma write_vocab_Inr_iff:
  "write_vocab p items w = (Inr u, w') \<longleftrightarrow>
     files w (butlast p) = Some Dir \<and> files w p \<noteq> Some Dir \<and>
     list_all (\<lambda>kv. \<not> has_surrogate (fst kv)) items \<and>
     w' = (record_call (Open_write p) w)
            \<lparr>files := (files w)(p \<mapsto> File (write_tokens items []))\<rparr>"
  by (auto simp: write_vocab_def Let_def write_loop_Inr_iff write_loop_encodable
      split: option.splits node.splits prod.splits)

lemma export_vocabulary_Inr_iff:
  "export_vocabulary env tokenizer w = (Inr u, w') \<longleftrightarrow>
     \<not> list_ex (is_file (files w)) (prefixes (OUTPUT_DIR env)) \<and>
     files w (vocab_path env) \<noteq> Some Dir \<and>
     encodable (get_vocab tokenizer) \<and>
     w' = w\<lparr>calls := calls w @ [Mkdir (OUTPUT_DIR env), Open_write (vocab_path env)],
             files := (\<lambda>q. if prefix q (OUTPUT_DIR env) then Some Dir else files w q)
               (vocab_path env \<mapsto> File (vocab_text (get_vocab tokenizer)))\<rparr>"
  by (auto simp: export_vocabulary_def bind_Inr_iff mkdir_Inr_iff write_vocab_Inr_iff
      encodable_ordered record_call_def vocab_path_def vocab_text_def)

lemma torch_jit_trace_Inr_iff:
  "torch_jit_trace env wrapper (a, b, c) w = (Inr traced, w') \<longleftrightarrow>
     (\<exists>out. forward wrapper a b c = Some out) \<and>
     jit_trace env wrapper (a, b, c) = Some traced \<and>
     w' = w\<lparr>calls := calls w @ [Jit_trace a b c],
             executions := executions w @
               replicate (Suc (trace_checks env)) (Forward (position_ids wrapper) a b c)\<rparr>"
  by (auto simp: torch_jit_trace_def record_call_def Let_def split: option.splits)


lemma exists_iff:
  "exists p w = (r, w') \<longleftrightarrow> r = Inr (files w p \<noteq> None) \<and> w' = w"
  by (auto simp: exists_def)

lemma rmtree_Inr_iff:
  "rmtree p w = (Inr u, w') \<longleftrightarrow>
     files w p = Some Dir \<and>
     w' = (record_call (Rmtree p) w)
            \<lparr>files := (\<lambda>q. if prefix p q then None else files w q)\<rparr>"
  by (auto simp: rmtree_def Let_def split: option.splits node.splits)

lemma return_iff: "return x w = (r, w') \<longleftrightarrow> r = Inr x \<and> w' = w"
  by (auto simp: return_def)

lemma save_Inr_iff:
  "save package p w = (Inr u, w') \<longleftrightarrow>
     (\<exists>entries. package = Some entries \<and>
        w' = (record_call (Save p) w)
               \<lparr>files :=
                  (\<lambda>q. if q = p then Some Dir
                       else if prefix p q then
                         (case map_of entries (drop (length p) q) of
                            Some n \<Rightarrow> Some n
                          | None \<Rightarrow> files w q)
                       else files w q)\<rparr>)"
  by (auto simp: save_def Let_def split: option.splits)

lemma main_stages:
  assumes "main env fs0 = (Inr u, w)"
  shows "\<exists>tokenizer model out traced mlmodel mlmodel_int8 w2.
      tokenizer_from_pretrained env MODEL_NAME = Some tokenizer \<and>
      model_from_pretrained env MODEL_NAME ''eager'' = Some model \<and>
      encodable (get_vocab tokenizer) \<and>
      forward (MaskedLMWrapper model MAX_SEQ_LEN) (dummy_ids env) dummy_mask dummy_type_ids =
        Some out \<and>
      jit_trace env (MaskedLMWrapper model MAX_SEQ_LEN)
         (dummy_ids env, dummy_mask, dummy_type_ids) = Some traced \<and>
      ct_convert env traced convert_inputs convert_outputs ''mlprogram'' MacOS14 = Some mlmodel \<and>
      affine_quantize_weights env mlmodel ''linear'' Int8 = Some mlmodel_int8 \<and>
      (if fs0 (mlpackage_path env) \<noteq> None then rmtree (mlpackage_path env) else return ())
        \<lparr>files =
          (\<lambda>q. if prefix q (OUTPUT_DIR env) then Some Dir else fs0 q)
            (vocab_path env \<mapsto> File (vocab_text (get_vocab tokenizer))),
         calls = [AutoTokenizer_from_pretrained MODEL_NAME,
           AutoModelForMaskedLM_from_pretrained MODEL_NAME ''eager'',
           Mkdir (OUTPUT_DIR env),
           Open_write (vocab_path env),
           Jit_trace (dummy_ids env) dummy_mask dummy_type_ids,
           Ct_convert convert_inputs convert_outputs ''mlprogram'' MacOS14,
           Affine_quantize_weights ''linear'' Int8],
         executions = replicate (Suc (trace_checks env))
           (Forward [map int [0 ..< MAX_SEQ_LEN]] (dummy_ids env) dummy_mask dummy_type_ids)\<rparr>
        = (Inr (), w2) \<and>
      save (package_files env mlmodel_int8) (mlpackage_path env) w2 = (Inr u, w)"
  using assms unfolding main_def
  apply (simp add: bind_Inr_iff library_Inr_iff export_vocabulary_Inr_iff
      torch_jit_trace_Inr_iff exists_iff record_call_def MaskedLMWrapper_def cong: if_cong)
  apply (elim exE conjE)
  apply (cases "fs0 (mlpackage_path env)")
   apply (simp_all add: vocab_path_def mlpackage_path_def cong: if_cong)
  done


lemma main_success_model:
  assumes "main env fs0 = (Inr u, w)"
  obtains model out traced mlmodel mlmodel_int8 where
    "model_from_pretrained env MODEL_NAME ''eager'' = Some model"
    "forward (MaskedLMWrapper model MAX_SEQ_LEN) (dummy_ids env) dummy_mask dummy_type_ids =
       Some out"
    "jit_trace env (MaskedLMWrapper model MAX_SEQ_LEN)
       (dummy_ids env, dummy_mask, dummy_type_ids) = Some traced"
    "ct_convert env traced convert_inputs convert_outputs ''mlprogram'' MacOS14 = Some mlmodel"
    "affine_quantize_weights env mlmodel ''linear'' Int8 = Some mlmodel_int8"
    "executions w = replicate (Suc (trace_checks env))
       (Forward [map int [0 ..< MAX_SEQ_LEN]] (dummy_ids env) dummy_mask dummy_type_ids)"
  using main_stages [OF assms]
proof (elim exE conjE)
  fix tokenizer model out traced mlmodel mlmodel_int8 w2
  assume facts: "model_from_pretrained env MODEL_NAME ''eager'' = Some model"
      "forward (MaskedLMWrapper model MAX_SEQ_LEN) (dummy_ids env) dummy_mask dummy_type_ids =
         Some out"
      "jit_trace env (MaskedLMWrapper model MAX_SEQ_LEN)
         (dummy_ids env, dummy_mask, dummy_type_ids) = Some traced"
      "ct_convert env traced convert_inputs convert_outputs ''mlprogram'' MacOS14 = Some mlmodel"
      "affine_quantize_weights env mlmodel ''linear'' Int8 = Some mlmodel_int8"
    and rm: "(if fs0 (mlpackage_path env) \<noteq> None then rmtree (mlpackage_path env)
              else return ())
        \<lparr>files =
          (\<lambda>q. if prefix q (OUTPUT_DIR env) then Some Dir else fs0 q)
            (vocab_path env \<mapsto> File (vocab_text (get_vocab tokenizer))),
         calls = [AutoTokenizer_from_pretrained MODEL_NAME,
           AutoModelForMaskedLM_from_pretrained MODEL_NAME ''eager'',
           Mkdir (OUTPUT_DIR env),
           Open_write (vocab_path env),
           Jit_trace (dummy_ids env) dummy_mask dummy_type_ids,
           Ct_convert convert_inputs convert_outputs ''mlprogram'' MacOS14,
           Affine_quantize_weights ''linear'' Int8],
         executions = replicate (Suc (trace_checks env))
           (Forward [map int [0 ..< MAX_SEQ_LEN]] (dummy_ids env) dummy_mask dummy_type_ids)\<rparr>
        = (Inr (), w2)"
    and sv: "save (package_files env mlmodel_int8) (mlpackage_path env) w2 = (Inr u, w)"
  have "executions w2 = replicate (Suc (trace_checks env))
       (Forward [map int [0 ..< MAX_SEQ_LEN]] (dummy_ids env) dummy_mask dummy_type_ids)"
    using rm by (auto simp: rmtree_Inr_iff return_iff record_call_def split: if_splits)
  moreover have "executions w = executions w2"
    using sv by (auto simp: save_Inr_iff record_call_def)
  ultimately have "executions w = replicate (Suc (trace_checks env))
       (Forward [map int [0 ..< MAX_SEQ_LEN]] (dummy_ids env) dummy_mask dummy_type_ids)"
    by simp
  with facts show thesis
    by (rule that)
qed


lemma main_success:
  assumes "main env fs0 = (Inr u, w)"
  obtains tokenizer mlmodel_int8 entries where
    "tokenizer_from_pretrained env MODEL_NAME = Some tokenizer"
    "package_files env mlmodel_int8 = Some entries"
    "calls w = script_calls env (fs0 (mlpackage_path env) \<noteq> None)"
    "files w (mlpackage_path env) = Some Dir"
    "\<And>q. fs0 (mlpackage_path env) \<noteq> None \<Longrightarrow> strict_prefix (mlpackage_path env) q \<Longrightarrow>
       files w q = map_of entries (drop (length (mlpackage_path env)) q)"
    "files w (vocab_path env) = Some (File (vocab_text (get_vocab tokenizer)))"
  using main_stages [OF assms]
proof (elim exE conjE)
  fix tokenizer :: tokenizer and model out traced mlmodel mlmodel_int8 w2
  define w1 where "w1 = \<lparr>files =
          (\<lambda>q. if prefix q (OUTPUT_DIR env) then Some Dir else fs0 q)
            (vocab_path env \<mapsto> File (vocab_text (get_vocab tokenizer))),
         calls = [AutoTokenizer_from_pretrained MODEL_NAME,
           AutoModelForMaskedLM_from_pretrained MODEL_NAME ''eager'',
           Mkdir (OUTPUT_DIR env),
           Open_write (vocab_path env),
           Jit_trace (dummy_ids env) dummy_mask dummy_type_ids,
           Ct_convert convert_inputs convert_outputs ''mlprogram'' MacOS14,
           Affine_quantize_weights ''linear'' Int8],
         executions = replicate (Suc (trace_checks env))
           (Forward [map int [0 ..< MAX_SEQ_LEN]] (dummy_ids env) dummy_mask dummy_type_ids)\<rparr>"
  assume tok: "tokenizer_from_pretrained env MODEL_NAME = Some tokenizer"
    and rm0: "(if fs0 (mlpackage_path env) \<noteq> None then rmtree (mlpackage_path env)
              else return ())
        \<lparr>files =
          (\<lambda>q. if prefix q (OUTPUT_DIR env) then Some Dir else fs0 q)
            (vocab_path env \<mapsto> File (vocab_text (get_vocab tokenizer))),
         calls = [AutoTokenizer_from_pretrained MODEL_NAME,
           AutoModelForMaskedLM_from_pretrained MODEL_NAME ''eager'',
           Mkdir (OUTPUT_DIR env),
           Open_write (vocab_path env),
           Jit_trace (dummy_ids env) dummy_mask dummy_type_ids,
           Ct_convert convert_inputs convert_outputs ''mlprogram'' MacOS14,
           Affine_quantize_weights ''linear'' Int8],
         executions = replicate (Suc (trace_checks env))
           (Forward [map int [0 ..< MAX_SEQ_LEN]] (dummy_ids env) dummy_mask dummy_type_ids)\<rparr>
        = (Inr (), w2)"
    and sv: "save (package_files env mlmodel_int8) (mlpackage_path env) w2 = (Inr u, w)"
  from rm0 have rm: "(if fs0 (mlpackage_path env) \<noteq> None then rmtree (mlpackage_path env)
              else return ()) w1 = (Inr (), w2)"
    by (simp only: w1_def)
  have w1_files: "files w1 = (\<lambda>q. if prefix q (OUTPUT_DIR env) then Some Dir else fs0 q)
            (vocab_path env \<mapsto> File (vocab_text (get_vocab tokenizer)))"
    and w1_calls: "calls w1 = take 7 (script_calls env False)"
    by (simp_all add: w1_def script_calls_def)
  have found: "files w1 (mlpackage_path env) = fs0 (mlpackage_path env)"
    by (simp add: w1_files vocab_path_def mlpackage_path_def)
  from sv obtain entries where entries: "package_files env mlmodel_int8 = Some entries"
    and w: "w = (record_call (Save (mlpackage_path env)) w2)
               \<lparr>files :=
                  (\<lambda>q. if q = mlpackage_path env then Some Dir
                       else if prefix (mlpackage_path env) q then
                         (case map_of entries (drop (length (mlpackage_path env)) q) of
                            Some n \<Rightarrow> Some n
                          | None \<Rightarrow> files w2 q)
                       else files w2 q)\<rparr>"
    unfolding save_Inr_iff by blast
  have w2_calls: "calls w2 = calls w1 @
      (if fs0 (mlpackage_path env) \<noteq> None then [Rmtree (mlpackage_path env)] else [])"
    using rm by (auto simp: rmtree_Inr_iff return_iff record_call_def split: if_splits)
  have calls: "calls w = script_calls env (fs0 (mlpackage_path env) \<noteq> None)"
    by (simp add: w w2_calls w1_calls record_call_def script_calls_def)
  have dir: "files w (mlpackage_path env) = Some Dir"
    by (simp add: w record_call_def)
  have below: "files w q = map_of entries (drop (length (mlpackage_path env)) q)"
    if "fs0 (mlpackage_path env) \<noteq> None" and "strict_prefix (mlpackage_path env) q" for q
  proof -
    from rm that(1) have "files w2 q = None"
      using that(2) by (auto simp: rmtree_Inr_iff record_call_def strict_prefix_def)
    then show ?thesis
      using that(2) by (auto simp: w record_call_def strict_prefix_def split: option.splits)
  qed
  have neq: "vocab_path env \<noteq> mlpackage_path env"
    and not_below: "\<not> prefix (mlpackage_path env) (vocab_path env)"
    by (simp_all add: vocab_path_def mlpackage_path_def)
  have "files w2 (vocab_path env) = files w1 (vocab_path env)"
    using rm not_below
    by (auto simp: rmtree_Inr_iff return_iff record_call_def split: if_splits)
  then have vocab: "files w (vocab_path env) = Some (File (vocab_text (get_vocab tokenizer)))"
    using neq not_below by (simp add: w w1_files record_call_def)
  from tok entries calls dir below vocab show thesis
    by (rule that)
qed

lemma bind_Inl_iff:
  "bind f g w = (Inl e, w'') \<longleftrightarrow>
     f w = (Inl e, w'') \<or> (\<exists>x w'. f w = (Inr x, w') \<and> g x w' = (Inl e, w''))"
  by (auto simp: bind_def split: prod.splits sum.splits)

lemma library_Inl_iff:
  "library c e' r w = (Inl e, w') \<longleftrightarrow> r = None \<and> e = e' \<and> w' = record_call c w"
  by (auto simp: library_def split: option.splits)

lemma torch_jit_trace_Inl_iff:
  "torch_jit_trace env wrapper (a, b, c) w = (Inl e, w') \<longleftrightarrow>
     (forward wrapper a b c = None \<and> e = IndexError \<or>
      (\<exists>out. forward wrapper a b c = Some out) \<and> jit_trace env wrapper (a, b, c) = None \<and>
        e = TraceError) \<and>
     w' = w\<lparr>calls := calls w @ [Jit_trace a b c],
             executions := executions w @ [Forward (position_ids wrapper) a b c]\<rparr>"
  by (auto simp: torch_jit_trace_def record_call_def Let_def split: option.splits)

lemma write_loop_error:
  "write_loop items f = (Inl e, content) \<Longrightarrow> e = UnicodeEncodeError"
  by (induction items f rule: write_loop.induct)
    (auto simp: f_write_def split: if_splits)

lemma file_errors:
  "export_vocabulary env tokenizer w = (Inl e, w') \<Longrightarrow> \<not> model_error e"
  "rmtree p w = (Inl e, w') \<Longrightarrow> \<not> model_error e"
  "save package p w = (Inl e, w') \<Longrightarrow> \<not> model_error e"
  by (auto simp: export_vocabulary_def bind_def mkdir_def write_vocab_def rmtree_def save_def
      model_error_def Let_def
      dest: write_loop_error
      split: if_splits option.splits node.splits prod.splits sum.splits)


lemma main_model_failure:
  assumes "main env fs0 = (Inl e, w)" and "model_error e"
  shows "\<exists>tokenizer model.
    tokenizer_from_pretrained env MODEL_NAME = Some tokenizer \<and>
    model_from_pretrained env MODEL_NAME ''eager'' = Some model \<and>
    files w = (\<lambda>q. if prefix q (OUTPUT_DIR env) then Some Dir else fs0 q)
        (vocab_path env \<mapsto> File (vocab_text (get_vocab tokenizer))) \<and>
    calls w =
      [AutoTokenizer_from_pretrained MODEL_NAME,
       AutoModelForMaskedLM_from_pretrained MODEL_NAME ''eager'',
       Mkdir (OUTPUT_DIR env),
       Open_write (vocab_path env),
       Jit_trace (dummy_ids env) dummy_mask dummy_type_ids]
      @ (if e = TraceError then []
         else Ct_convert convert_inputs convert_outputs ''mlprogram'' MacOS14
           # (if e = ConversionError then [] else [Affine_quantize_weights ''linear'' Int8])) \<and>
    executions w = replicate (if e = TraceError then 1 else Suc (trace_checks env))
      (Forward [map int [0 ..< MAX_SEQ_LEN]] (dummy_ids env) dummy_mask dummy_type_ids) \<and>
    (if e = TraceError
     then jit_trace env (MaskedLMWrapper model MAX_SEQ_LEN)
            (dummy_ids env, dummy_mask, dummy_type_ids) = None
     else \<exists>traced.
       jit_trace env (MaskedLMWrapper model MAX_SEQ_LEN)
         (dummy_ids env, dummy_mask, dummy_type_ids) = Some traced \<and>
       (if e = ConversionError
        then ct_convert env traced convert_inputs convert_outputs ''mlprogram'' MacOS14 = None
        else \<exists>mlmodel.
          ct_convert env traced convert_inputs convert_outputs ''mlprogram'' MacOS14 =
            Some mlmodel \<and>
          affine_quantize_weights env mlmodel ''linear'' Int8 = None))"
  using assms unfolding main_def
  apply (simp add: bind_Inl_iff bind_Inr_iff library_Inr_iff library_Inl_iff
      export_vocabulary_Inr_iff torch_jit_trace_Inr_iff torch_jit_trace_Inl_iff exists_iff
      cong: if_cong)
  apply (elim disjE exE conjE)
  apply (auto simp: record_call_def model_error_def return_iff MaskedLMWrapper_def
      dest: file_errors split: if_splits cong: if_cong)
  done

lemma main_calls_success:
  assumes "fst (main env fs0) = Inr u"
  shows "calls (snd (main env fs0)) = script_calls env (fs0 (mlpackage_path env) \<noteq> None)"
proof -
  have "main env fs0 = (Inr u, snd (main env fs0))"
    using assms by (metis prod.collapse)
  then show ?thesis
    by (rule main_success)
qed

lemma filter_prefix_single:
  assumes "prefix xs ys" and "filter P ys = [y]"
  shows "filter P xs = [] \<or> filter P xs = [y]"
proof -
  have "prefix (filter P xs) (filter P ys)"
    using assms(1) by (rule filter_mono_prefix)
  then show ?thesis
    by (cases "filter P xs") (simp_all add: assms(2))
qed

lemma convert_calls: "filter is_convert (script_calls env found) =
    [Ct_convert convert_inputs convert_outputs ''mlprogram'' MacOS14]"
  by (simp add: script_calls_def)


lemma has_shape2_dummy:
  "has_shape2 (dummy_ids env) 1 MAX_SEQ_LEN"
  "has_shape2 dummy_mask 1 MAX_SEQ_LEN"
  "has_shape2 dummy_type_ids 1 MAX_SEQ_LEN"
  by (simp_all add: has_shape2_def dummy_ids_def dummy_mask_def dummy_type_ids_def randint_def
      ones_def zeros_def)



lemma torch_jit_trace_converter:
  "torch_jit_trace (env\<lparr>ct_convert := f\<rparr>) = torch_jit_trace env"
  by (simp add: fun_eq_iff torch_jit_trace_def Let_def split: option.splits prod.splits)


lemma main_converter_arguments:
  assumes "\<And>traced. f traced convert_inputs convert_outputs ''mlprogram'' MacOS14 =
    ct_convert env traced convert_inputs convert_outputs ''mlprogram'' MacOS14"
  shows "main (env\<lparr>ct_convert := f\<rparr>) fs0 = main env fs0"
  unfolding main_def
  by (simp add: assms export_vocabulary_def torch_jit_trace_converter vocab_path_def
      mlpackage_path_def dummy_ids_def cong: if_cong)




lemmas run_eval = main_def bind_def return_def library_def record_call_def mkdir_def
  write_vocab_def exists_def rmtree_def save_def Let_def example_env_def vocab_path_def
  mlpackage_path_def is_file_def export_vocabulary_def torch_jit_trace_def forward_def
  MaskedLMWrapper_def f_write_def ordered_def newline_def

lemma ex_run1: "fst (main (example_env [([''old.bin''], File ''1'')] True) Map.empty) = Inr ()"
  by (simp add: run_eval)

lemma ex_run1_pkg: "files (snd (main (example_env [([''old.bin''], File ''1'')] True) Map.empty))
    [''Resources'', ''DictaBERT_INT8.mlpackage'', ''old.bin''] = Some (File ''1'')"
  by (simp add: run_eval)

lemma ex_run2: "fst (main (example_env [([''new.bin''], File ''2'')] True)
    (files (snd (main (example_env [([''old.bin''], File ''1'')] True) Map.empty)))) = Inr ()"
  by (simp add: run_eval)

lemma ex_fail: "fst (main (example_env [] False) Map.empty) = Inl ConversionError"
  by (simp add: run_eval)

lemma ex_run: "fst (main (example_env [] True) Map.empty) = Inr ()"
  by (simp add: run_eval)


lemma ex_shapeless: "fst (main ((example_env [] True)
      \<lparr>ct_convert := (\<lambda>traced inputs outputs convert_to target.
          if list_all (\<lambda>t. shape t \<noteq> None) outputs then Some () else None)\<rparr>) Map.empty) =
    Inl ConversionError"
  by (simp add: run_eval convert_outputs_def)











lemma convert_run:
  assumes "main env fs0 = (r, w)"
  shows "(r = Inr () \<longrightarrow>
      (\<exists>model traced mlmodel mlmodel_int8.
         model_from_pretrained env MODEL_NAME ''eager'' = Some model \<and>
         jit_trace env (MaskedLMWrapper model MAX_SEQ_LEN)
           (dummy_ids env, dummy_mask, dummy_type_ids) = Some traced \<and>
         ct_convert env traced convert_inputs convert_outputs ''mlprogram'' MacOS14 =
           Some mlmodel \<and>
         affine_quantize_weights env mlmodel ''linear'' Int8 = Some mlmodel_int8) \<and>
      length (filter is_convert (calls w)) = 1) \<and>
   (r = Inl ConversionError \<longrightarrow>
      (\<exists>model traced.
         model_from_pretrained env MODEL_NAME ''eager'' = Some model \<and>
         jit_trace env (MaskedLMWrapper model MAX_SEQ_LEN)
           (dummy_ids env, dummy_mask, dummy_type_ids) = Some traced \<and>
         ct_convert env traced convert_inputs convert_outputs ''mlprogram'' MacOS14 = None)) \<and>
   (\<forall>f. (\<forall>traced. f traced convert_inputs convert_outputs ''mlprogram'' MacOS14 =
            ct_convert env traced convert_inputs convert_outputs ''mlprogram'' MacOS14) \<longrightarrow>
        main (env\<lparr>ct_convert := f\<rparr>) fs0 = (r, w)) \<and>
   (\<forall>c \<in> set (calls w). is_convert c \<longrightarrow>
      c = Ct_convert convert_inputs convert_outputs ''mlprogram'' MacOS14) \<and>
   length (filter is_convert (calls w)) \<le> 1"
proof -
  let ?c = "Ct_convert convert_inputs convert_outputs ''mlprogram'' MacOS14"
  have w: "w = snd (main env fs0)" and r: "r = fst (main env fs0)"
    by (simp_all add: assms)
  have cases: "filter is_convert (calls w) = [] \<or> filter is_convert (calls w) = [?c]"
    unfolding w using main_calls_prefix convert_calls by (rule filter_prefix_single)
  have one: "c = ?c" if "c \<in> set (calls w)" and "is_convert c" for c
  proof -
    from that have "c \<in> set (filter is_convert (calls w))"
      by simp
    moreover have "set (filter is_convert (calls w)) \<subseteq> {?c}"
      using cases by (elim disjE) simp_all
    ultimately show ?thesis
      by blast
  qed
  have most: "length (filter is_convert (calls w)) \<le> 1"
    using cases by auto
  have ok: "(\<exists>model traced mlmodel mlmodel_int8.
         model_from_pretrained env MODEL_NAME ''eager'' = Some model \<and>
         jit_trace env (MaskedLMWrapper model MAX_SEQ_LEN)
           (dummy_ids env, dummy_mask, dummy_type_ids) = Some traced \<and>
         ct_convert env traced convert_inputs convert_outputs ''mlprogram'' MacOS14 =
           Some mlmodel \<and>
         affine_quantize_weights env mlmodel ''linear'' Int8 = Some mlmodel_int8) \<and>
      length (filter is_convert (calls w)) = 1" if "r = Inr ()"
  proof -
    have run: "main env fs0 = (Inr (), w)"
      using assms that by simp
    have "fst (main env fs0) = Inr ()"
      using run by simp
    then have "length (filter is_convert (calls w)) = 1"
      unfolding w by (simp add: main_calls_success convert_calls)
    moreover from run have "\<exists>model traced mlmodel mlmodel_int8.
         model_from_pretrained env MODEL_NAME ''eager'' = Some model \<and>
         jit_trace env (MaskedLMWrapper model MAX_SEQ_LEN)
           (dummy_ids env, dummy_mask, dummy_type_ids) = Some traced \<and>
         ct_convert env traced convert_inputs convert_outputs ''mlprogram'' MacOS14 =
           Some mlmodel \<and>
         affine_quantize_weights env mlmodel ''linear'' Int8 = Some mlmodel_int8"
      by (rule main_success_model) blast
    ultimately show ?thesis
      by simp
  qed
  have failed: "\<exists>model traced.
         model_from_pretrained env MODEL_NAME ''eager'' = Some model \<and>
         jit_trace env (MaskedLMWrapper model MAX_SEQ_LEN)
           (dummy_ids env, dummy_mask, dummy_type_ids) = Some traced \<and>
         ct_convert env traced convert_inputs convert_outputs ''mlprogram'' MacOS14 = None"
    if "r = Inl ConversionError"
  proof -
    have "main env fs0 = (Inl ConversionError, w)"
      using assms that by simp
    moreover have "model_error ConversionError"
      by (simp add: model_error_def)
    ultimately show ?thesis
      by (auto dest!: main_model_failure)
  qed
  have same: "main (env\<lparr>ct_convert := f\<rparr>) fs0 = (r, w)"
    if "\<forall>traced. f traced convert_inputs convert_outputs ''mlprogram'' MacOS14 =
      ct_convert env traced convert_inputs convert_outputs ''mlprogram'' MacOS14" for f
    using that by (simp add: main_converter_arguments assms)
  from ok failed same one most show ?thesis
    by blast
qed


subsection \<open>Claims about the run of \<^verbatim>\<open>main\<close>\<close>

text \<open>
  C8, as stated, for every mapping and wherever the script is run: the export never
  fails and the file has one line for each entry. Four runs of the export refute it.
  With the two entries \<open>x\<newline>y\<close> and \<open>z\<close>, both of id 7, the export succeeds and the
  file has three lines. With the entries \<^verbatim>\<open>ok\<close>, a token that is one lone surrogate,
  and \<^verbatim>\<open>z\<close>, the second \<^verbatim>\<open>f.write\<close> raises \<^verbatim>\<open>UnicodeEncodeError\<close> and the file is
  left with the line \<^verbatim>\<open>ok\<close> alone. Where the path of the vocabulary file is a
  directory, \<^verbatim>\<open>open\<close> raises \<^verbatim>\<open>IsADirectoryError\<close>, and where the output directory is
  a file, \<^verbatim>\<open>mkdir\<close> raises \<^verbatim>\<open>FileExistsError\<close>.
\<close>

theorem export_never_fails_counterexample:
  "fst (export_vocabulary (example_env [] True)
      \<lparr>get_vocab = [([CHR ''x'', newline, CHR ''y''], 7), (''z'', 7)]\<rparr>
      \<lparr>files = Map.empty, calls = [], executions = []\<rparr>) = Inr () \<and>
   files (snd (export_vocabulary (example_env [] True)
      \<lparr>get_vocab = [([CHR ''x'', newline, CHR ''y''], 7), (''z'', 7)]\<rparr>
      \<lparr>files = Map.empty, calls = [], executions = []\<rparr>)) [''Resources'', ''vocab.txt''] =
     Some (File [CHR ''x'', newline, CHR ''y'', newline, CHR ''z'', newline]) \<and>
   length (file_lines [CHR ''x'', newline, CHR ''y'', newline, CHR ''z'', newline]) = 3 \<and>
   length [([CHR ''x'', newline, CHR ''y''], 7 :: int), (''z'', 7)] = 2 \<and>
   fst (export_vocabulary (example_env [] True)
      \<lparr>get_vocab = [(''ok'', 0), ([CHR 0xED, CHR 0xA0, CHR 0x80], 1), (''z'', 2)]\<rparr>
      \<lparr>files = Map.empty, calls = [], executions = []\<rparr>) = Inl UnicodeEncodeError \<and>
   files (snd (export_vocabulary (example_env [] True)
      \<lparr>get_vocab = [(''ok'', 0), ([CHR 0xED, CHR 0xA0, CHR 0x80], 1), (''z'', 2)]\<rparr>
      \<lparr>files = Map.empty, calls = [], executions = []\<rparr>)) [''Resources'', ''vocab.txt''] =
     Some (File [CHR ''o'', CHR ''k'', newline]) \<and>
   fst (export_vocabulary (example_env [] True) \<lparr>get_vocab = [(''a'', 0)]\<rparr>
      \<lparr>files = [[''Resources'', ''vocab.txt''] \<mapsto> Dir], calls = [], executions = []\<rparr>) =
     Inl IsADirectoryError \<and>
   fst (export_vocabulary (example_env [] True) \<lparr>get_vocab = [(''a'', 0)]\<rparr>
      \<lparr>files = [[''Resources''] \<mapsto> File ''''], calls = [], executions = []\<rparr>) =
     Inl FileExistsError"
  by (simp add: export_vocabulary_def bind_def mkdir_def write_vocab_def record_call_def
      is_file_def f_write_def ordered_def newline_def vocab_path_def example_env_def Let_def)

text \<open>
  C8, amended: for every token to id mapping none of whose tokens contains a newline
  character or a lone surrogate, also one with duplicate ids or with gaps in the ids,
  the export, run where no part of the path of the output directory is a file and the
  path of the vocabulary file is not a directory, does not fail: it leaves a file that
  holds exactly one line for each entry of the mapping, the lines being the tokens of
  the entries in an order of non-decreasing id, and nothing checks that the ids are
  contiguous or unique. Each of the four conditions is needed, as the four runs above
  show. The file system of this development has no permissions, quotas or devices, so
  the errors of the operating system that come from them are not covered.
\<close>

theorem export_without_validation:
  assumes "newline_free (get_vocab tokenizer)"
    and "encodable (get_vocab tokenizer)"
    and "\<not> list_ex (is_file (files w)) (prefixes (OUTPUT_DIR env))"
    and "files w (vocab_path env) \<noteq> Some Dir"
  shows "fst (export_vocabulary env tokenizer w) = Inr () \<and>
    files (snd (export_vocabulary env tokenizer w)) (vocab_path env) =
      Some (File (vocab_text (get_vocab tokenizer))) \<and>
    length (file_lines (vocab_text (get_vocab tokenizer))) = length (get_vocab tokenizer) \<and>
    file_lines (vocab_text (get_vocab tokenizer)) = map fst (ordered (get_vocab tokenizer)) \<and>
    mset (ordered (get_vocab tokenizer)) = mset (get_vocab tokenizer) \<and>
    sorted (map snd (ordered (get_vocab tokenizer)))"
proof -
  let ?w = "w\<lparr>calls := calls w @ [Mkdir (OUTPUT_DIR env), Open_write (vocab_path env)],
      files := (\<lambda>q. if prefix q (OUTPUT_DIR env) then Some Dir else files w q)
        (vocab_path env \<mapsto> File (vocab_text (get_vocab tokenizer)))\<rparr>"
  have "export_vocabulary env tokenizer w = (Inr (), ?w)"
    using assms(2-4) by (simp add: export_vocabulary_Inr_iff)
  moreover have "file_lines (vocab_text (get_vocab tokenizer)) =
      map fst (ordered (get_vocab tokenizer))"
    using assms(1) by (rule newline_free_lines)
  ultimately show ?thesis
    by (simp add: length_ordered mset_ordered sorted_ids_ordered)
qed

theorem export_without_validation_witness:
  "newline_free (get_vocab \<lparr>get_vocab = [(''b'', 7), (''a'', 7), (''c'', 2)]\<rparr>) \<and>
   encodable (get_vocab \<lparr>get_vocab = [(''b'', 7), (''a'', 7), (''c'', 2)]\<rparr>) \<and>
   \<not> list_ex (is_file (files \<lparr>files = Map.empty, calls = [], executions = []\<rparr>))
       (prefixes (OUTPUT_DIR (example_env [] True))) \<and>
   files \<lparr>files = Map.empty, calls = [], executions = []\<rparr> (vocab_path (example_env [] True))
     \<noteq> Some Dir \<and>
   fst (export_vocabulary (example_env [] True)
      \<lparr>get_vocab = [(''b'', 7), (''a'', 7), (''c'', 2)]\<rparr>
      \<lparr>files = Map.empty, calls = [], executions = []\<rparr>) = Inr () \<and>
   files (snd (export_vocabulary (example_env [] True)
      \<lparr>get_vocab = [(''b'', 7), (''a'', 7), (''c'', 2)]\<rparr>
      \<lparr>files = Map.empty, calls = [], executions = []\<rparr>)) [''Resources'', ''vocab.txt''] =
     Some (File [CHR ''c'', newline, CHR ''b'', newline, CHR ''a'', newline]) \<and>
   file_lines (vocab_text [(''b'', 7), (''a'', 7), (''c'', 2)]) = [''c'', ''b'', ''a'']"
proof -
  let ?t = "\<lparr>get_vocab = [(''b'', 7), (''a'', 7), (''c'', 2)]\<rparr>"
  let ?w = "\<lparr>files = Map.empty, calls = [], executions = []\<rparr>"
  let ?env = "example_env [] True"
  have h1: "newline_free (get_vocab ?t)"
    by (simp add: newline_free_def newline_def)
  have h2: "encodable (get_vocab ?t)"
    by (simp add: encodable_def)
  have h3: "\<not> list_ex (is_file (files ?w)) (prefixes (OUTPUT_DIR ?env))"
    by (simp add: is_file_def example_env_def)
  have h4: "files ?w (vocab_path ?env) \<noteq> Some Dir"
    by simp
  have path: "vocab_path ?env = [''Resources'', ''vocab.txt'']"
    by (simp add: vocab_path_def example_env_def)
  have sorted: "map fst (ordered [(''b'', 7), (''a'', 7), (''c'', 2)]) = [''c'', ''b'', ''a'']"
    by (simp add: ordered_def)
  have content: "vocab_text [(''b'', 7), (''a'', 7), (''c'', 2)] =
      [CHR ''c'', newline, CHR ''b'', newline, CHR ''a'', newline]"
    by (simp add: vocab_text_def ordered_def)
  show ?thesis
    using h1 h2 h3 h4 export_without_validation [OF h1 h2 h3 h4]
    by (simp add: path sorted content)
qed

text \<open>
  C4: after a run of \<^verbatim>\<open>main\<close> that succeeds, the package path is a directory. When
  the path exists before the run, as it does after an earlier run against the same
  destination, the run removes it with everything below it and only then saves:
  the last two calls are the removal and the save, and every path below the package
  path holds exactly what the save wrote there, so nothing of the earlier package is
  left.
\<close>

theorem run_replaces_existing_package:
  assumes "main env fs0 = (Inr u, w)"
  shows "files w (mlpackage_path env) = Some Dir \<and>
    (fs0 (mlpackage_path env) \<noteq> None \<longrightarrow>
       (\<exists>mlmodel_int8 entries.
          package_files env mlmodel_int8 = Some entries \<and>
          (\<forall>q. strict_prefix (mlpackage_path env) q \<longrightarrow>
             files w q = map_of entries (drop (length (mlpackage_path env)) q)) \<and>
          calls w = script_calls env True \<and>
          drop 7 (calls w) = [Rmtree (mlpackage_path env), Save (mlpackage_path env)]))"
  using assms
proof (rule main_success)
  fix mlmodel_int8 entries
  assume "package_files env mlmodel_int8 = Some entries"
    and "calls w = script_calls env (fs0 (mlpackage_path env) \<noteq> None)"
    and "files w (mlpackage_path env) = Some Dir"
    and "\<And>q. fs0 (mlpackage_path env) \<noteq> None \<Longrightarrow>
      strict_prefix (mlpackage_path env) q \<Longrightarrow>
      files w q = map_of entries (drop (length (mlpackage_path env)) q)"
  then show ?thesis
    by (auto simp: script_calls_def)
qed

theorem run_replaces_existing_package_witness:
  "main (example_env [([''new.bin''], File ''2'')] True)
     (files (snd (main (example_env [([''old.bin''], File ''1'')] True) Map.empty))) =
     (Inr (), snd (main (example_env [([''new.bin''], File ''2'')] True)
        (files (snd (main (example_env [([''old.bin''], File ''1'')] True) Map.empty))))) \<and>
   files (snd (main (example_env [([''old.bin''], File ''1'')] True) Map.empty))
     (mlpackage_path (example_env [([''new.bin''], File ''2'')] True)) \<noteq> None \<and>
   files (snd (main (example_env [([''old.bin''], File ''1'')] True) Map.empty))
     [''Resources'', ''DictaBERT_INT8.mlpackage'', ''old.bin''] = Some (File ''1'') \<and>
   files (snd (main (example_env [([''new.bin''], File ''2'')] True)
        (files (snd (main (example_env [([''old.bin''], File ''1'')] True) Map.empty)))))
     [''Resources'', ''DictaBERT_INT8.mlpackage'', ''old.bin''] = None \<and>
   files (snd (main (example_env [([''new.bin''], File ''2'')] True)
        (files (snd (main (example_env [([''old.bin''], File ''1'')] True) Map.empty)))))
     [''Resources'', ''DictaBERT_INT8.mlpackage'', ''new.bin''] = Some (File ''2'')"
proof -
  let ?env1 = "example_env [([''old.bin''], File ''1'')] True"
  let ?env2 = "example_env [([''new.bin''], File ''2'')] True"
  let ?w1 = "snd (main ?env1 Map.empty)"
  let ?w2 = "snd (main ?env2 (files ?w1))"
  have h1: "main ?env1 Map.empty = (Inr (), ?w1)"
    using ex_run1 by (metis prod.collapse)
  have h2: "main ?env2 (files ?w1) = (Inr (), ?w2)"
    using ex_run2 by (metis prod.collapse)
  have same: "mlpackage_path ?env2 = mlpackage_path ?env1"
    by (simp add: mlpackage_path_def example_env_def)
  have found: "files ?w1 (mlpackage_path ?env2) \<noteq> None"
    using run_replaces_existing_package [OF h1] by (simp add: same)
  from run_replaces_existing_package [OF h2] found obtain m entries where
    pkg: "package_files ?env2 m = Some entries"
    and below: "\<forall>q. strict_prefix (mlpackage_path ?env2) q \<longrightarrow>
      files ?w2 q = map_of entries (drop (length (mlpackage_path ?env2)) q)"
    by blast
  from pkg have entries: "entries = [([''new.bin''], File ''2'')]"
    by (simp add: example_env_def)
  have path: "mlpackage_path ?env2 = [''Resources'', ''DictaBERT_INT8.mlpackage'']"
    by (simp add: mlpackage_path_def example_env_def)
  have "files ?w2 [''Resources'', ''DictaBERT_INT8.mlpackage'', ''old.bin''] = None"
    using below [rule_format, of "[''Resources'', ''DictaBERT_INT8.mlpackage'', ''old.bin'']"]
    by (simp add: path entries strict_prefix_def)
  moreover have "files ?w2 [''Resources'', ''DictaBERT_INT8.mlpackage'', ''new.bin''] =
      Some (File ''2'')"
    using below [rule_format, of "[''Resources'', ''DictaBERT_INT8.mlpackage'', ''new.bin'']"]
    by (simp add: path entries strict_prefix_def)
  ultimately show ?thesis
    using h2 found ex_run1_pkg by simp
qed



text \<open>
  C6, as stated: the converter is called with a declared output that matches the
  output shape of the wrapper. The call declares the output by its name alone, with
  neither a shape nor an element type, so a converter that accepts only outputs
  declared with a shape refuses the call of the script: in an environment where every
  other stage succeeds, the run ends with a conversion error.
\<close>

theorem convert_output_shape_counterexample:
  "fst (main ((example_env [] True)
      \<lparr>ct_convert := (\<lambda>traced inputs outputs convert_to target.
          if list_all (\<lambda>t. shape t \<noteq> None) outputs then Some () else None)\<rparr>) Map.empty) =
     Inl ConversionError \<and>
   fst (main (example_env [] True) Map.empty) = Inr () \<and>
   map shape convert_outputs = [None] \<and>
   map dtype convert_outputs = [None]"
  using ex_shapeless ex_run by (simp add: convert_outputs_def)

text \<open>
  C6, amended: \<^verbatim>\<open>main\<close> applies the converter at most once, to the graph that the
  tracer returned for the wrapper, and exactly once in a run that succeeds. The
  application declares exactly three inputs, \<^verbatim>\<open>input_ids\<close>, \<^verbatim>\<open>attention_mask\<close> and
  \<^verbatim>\<open>token_type_ids\<close>, each of shape \<open>[1, MAX_SEQ_LEN]\<close>, which is \<open>[1, 128]\<close>, and of
  element type \<^verbatim>\<open>int32\<close>, one output of name \<^verbatim>\<open>logits\<close> with no declared shape and no
  declared element type, the program format \<^verbatim>\<open>mlprogram\<close> and the minimum deployment
  target \<^verbatim>\<open>macOS14\<close>. A run succeeds only if this application returns a model, and it
  ends with a conversion error only if this application fails; the run is the same
  with any other converter that agrees with the given one on these arguments. The
  declared input shape is the shape of each of the three tensors the wrapper is
  traced with.
\<close>

theorem convert_declared_tensors:
  assumes "main env fs0 = (r, w)"
  shows "(r = Inr () \<longrightarrow>
      (\<exists>model traced mlmodel mlmodel_int8.
         model_from_pretrained env MODEL_NAME ''eager'' = Some model \<and>
         jit_trace env (MaskedLMWrapper model MAX_SEQ_LEN)
           (dummy_ids env, dummy_mask, dummy_type_ids) = Some traced \<and>
         ct_convert env traced
           [\<lparr>name = ''input_ids'', shape = Some [1, MAX_SEQ_LEN], dtype = Some Int32\<rparr>,
            \<lparr>name = ''attention_mask'', shape = Some [1, MAX_SEQ_LEN], dtype = Some Int32\<rparr>,
            \<lparr>name = ''token_type_ids'', shape = Some [1, MAX_SEQ_LEN], dtype = Some Int32\<rparr>]
           [\<lparr>name = ''logits'', shape = None, dtype = None\<rparr>]
           ''mlprogram'' MacOS14 = Some mlmodel \<and>
         affine_quantize_weights env mlmodel ''linear'' Int8 = Some mlmodel_int8) \<and>
      length (filter is_convert (calls w)) = 1) \<and>
   (r = Inl ConversionError \<longrightarrow>
      (\<exists>model traced.
         model_from_pretrained env MODEL_NAME ''eager'' = Some model \<and>
         jit_trace env (MaskedLMWrapper model MAX_SEQ_LEN)
           (dummy_ids env, dummy_mask, dummy_type_ids) = Some traced \<and>
         ct_convert env traced
           [\<lparr>name = ''input_ids'', shape = Some [1, MAX_SEQ_LEN], dtype = Some Int32\<rparr>,
            \<lparr>name = ''attention_mask'', shape = Some [1, MAX_SEQ_LEN], dtype = Some Int32\<rparr>,
            \<lparr>name = ''token_type_ids'', shape = Some [1, MAX_SEQ_LEN], dtype = Some Int32\<rparr>]
           [\<lparr>name = ''logits'', shape = None, dtype = None\<rparr>]
           ''mlprogram'' MacOS14 = None)) \<and>
   (\<forall>f. (\<forall>traced. f traced
            [\<lparr>name = ''input_ids'', shape = Some [1, MAX_SEQ_LEN], dtype = Some Int32\<rparr>,
             \<lparr>name = ''attention_mask'', shape = Some [1, MAX_SEQ_LEN], dtype = Some Int32\<rparr>,
             \<lparr>name = ''token_type_ids'', shape = Some [1, MAX_SEQ_LEN], dtype = Some Int32\<rparr>]
            [\<lparr>name = ''logits'', shape = None, dtype = None\<rparr>]
            ''mlprogram'' MacOS14 =
          ct_convert env traced
            [\<lparr>name = ''input_ids'', shape = Some [1, MAX_SEQ_LEN], dtype = Some Int32\<rparr>,
             \<lparr>name = ''attention_mask'', shape = Some [1, MAX_SEQ_LEN], dtype = Some Int32\<rparr>,
             \<lparr>name = ''token_type_ids'', shape = Some [1, MAX_SEQ_LEN], dtype = Some Int32\<rparr>]
            [\<lparr>name = ''logits'', shape = None, dtype = None\<rparr>]
            ''mlprogram'' MacOS14) \<longrightarrow>
        main (env\<lparr>ct_convert := f\<rparr>) fs0 = (r, w)) \<and>
   (\<forall>c \<in> set (calls w). is_convert c \<longrightarrow>
      c = Ct_convert
        [\<lparr>name = ''input_ids'', shape = Some [1, MAX_SEQ_LEN], dtype = Some Int32\<rparr>,
         \<lparr>name = ''attention_mask'', shape = Some [1, MAX_SEQ_LEN], dtype = Some Int32\<rparr>,
         \<lparr>name = ''token_type_ids'', shape = Some [1, MAX_SEQ_LEN], dtype = Some Int32\<rparr>]
        [\<lparr>name = ''logits'', shape = None, dtype = None\<rparr>]
        ''mlprogram'' MacOS14) \<and>
   length (filter is_convert (calls w)) \<le> 1 \<and>
   MAX_SEQ_LEN = 128 \<and>
   has_shape2 (dummy_ids env) 1 MAX_SEQ_LEN \<and>
   has_shape2 dummy_mask 1 MAX_SEQ_LEN \<and>
   has_shape2 dummy_type_ids 1 MAX_SEQ_LEN"
  using convert_run [OF assms, unfolded convert_inputs_def convert_outputs_def]
    has_shape2_dummy MAX_SEQ_LEN_def
  by (intro conjI) (elim conjE, assumption)+

theorem convert_declared_tensors_witness:
  "main (example_env [] True) Map.empty =
     (Inr (), snd (main (example_env [] True) Map.empty)) \<and>
   main (example_env [] False) Map.empty =
     (Inl ConversionError, snd (main (example_env [] False) Map.empty)) \<and>
   ct_convert (example_env [] False) ()
     [\<lparr>name = ''input_ids'', shape = Some [1, 128], dtype = Some Int32\<rparr>,
      \<lparr>name = ''attention_mask'', shape = Some [1, 128], dtype = Some Int32\<rparr>,
      \<lparr>name = ''token_type_ids'', shape = Some [1, 128], dtype = Some Int32\<rparr>]
     [\<lparr>name = ''logits'', shape = None, dtype = None\<rparr>] ''mlprogram'' MacOS14 = None \<and>
   Ct_convert
     [\<lparr>name = ''input_ids'', shape = Some [1, 128], dtype = Some Int32\<rparr>,
      \<lparr>name = ''attention_mask'', shape = Some [1, 128], dtype = Some Int32\<rparr>,
      \<lparr>name = ''token_type_ids'', shape = Some [1, 128], dtype = Some Int32\<rparr>]
     [\<lparr>name = ''logits'', shape = None, dtype = None\<rparr>] ''mlprogram'' MacOS14
     \<in> set (calls (snd (main (example_env [] True) Map.empty))) \<and>
   length (filter is_convert (calls (snd (main (example_env [] True) Map.empty)))) = 1 \<and>
   fst (main ((example_env [] True)
      \<lparr>ct_convert := (\<lambda>traced inputs outputs convert_to target.
          if map name inputs = [''input_ids'', ''attention_mask'', ''token_type_ids'']
            \<and> map name outputs = [''logits''] \<and> target = MacOS14
          then Some () else None)\<rparr>) Map.empty) = Inr ()"
proof -
  let ?ok = "example_env [] True"
  let ?bad = "example_env [] False"
  let ?f = "\<lambda>traced inputs outputs convert_to target.
          if map name inputs = [''input_ids'', ''attention_mask'', ''token_type_ids'']
            \<and> map name outputs = [''logits''] \<and> target = MacOS14
          then Some () else None"
  let ?cs = "calls (snd (main ?ok Map.empty))"
  have len: "MAX_SEQ_LEN = 128"
    by (simp add: MAX_SEQ_LEN_def)
  have h1: "main ?ok Map.empty = (Inr (), snd (main ?ok Map.empty))"
    using ex_run by (metis prod.collapse)
  have h2: "main ?bad Map.empty = (Inl ConversionError, snd (main ?bad Map.empty))"
    using ex_fail by (metis prod.collapse)
  note ok = convert_declared_tensors [OF h1, unfolded len]
  note bad = convert_declared_tensors [OF h2, unfolded len]
  from bad have none: "ct_convert ?bad ()
     [\<lparr>name = ''input_ids'', shape = Some [1, 128], dtype = Some Int32\<rparr>,
      \<lparr>name = ''attention_mask'', shape = Some [1, 128], dtype = Some Int32\<rparr>,
      \<lparr>name = ''token_type_ids'', shape = Some [1, 128], dtype = Some Int32\<rparr>]
     [\<lparr>name = ''logits'', shape = None, dtype = None\<rparr>] ''mlprogram'' MacOS14 = None"
    by auto
  from ok have count: "length (filter is_convert ?cs) = 1"
    by simp
  then obtain c where "c \<in> set (filter is_convert ?cs)"
    by (cases "filter is_convert ?cs") auto
  then have c: "c \<in> set ?cs" "is_convert c"
    by simp_all
  with ok have "c = Ct_convert
     [\<lparr>name = ''input_ids'', shape = Some [1, 128], dtype = Some Int32\<rparr>,
      \<lparr>name = ''attention_mask'', shape = Some [1, 128], dtype = Some Int32\<rparr>,
      \<lparr>name = ''token_type_ids'', shape = Some [1, 128], dtype = Some Int32\<rparr>]
     [\<lparr>name = ''logits'', shape = None, dtype = None\<rparr>] ''mlprogram'' MacOS14"
    by blast
  with c(1) have mem: "Ct_convert
     [\<lparr>name = ''input_ids'', shape = Some [1, 128], dtype = Some Int32\<rparr>,
      \<lparr>name = ''attention_mask'', shape = Some [1, 128], dtype = Some Int32\<rparr>,
      \<lparr>name = ''token_type_ids'', shape = Some [1, 128], dtype = Some Int32\<rparr>]
     [\<lparr>name = ''logits'', shape = None, dtype = None\<rparr>] ''mlprogram'' MacOS14 \<in> set ?cs"
    by simp
  have agree: "\<forall>traced. ?f traced
            [\<lparr>name = ''input_ids'', shape = Some [1, 128], dtype = Some Int32\<rparr>,
             \<lparr>name = ''attention_mask'', shape = Some [1, 128], dtype = Some Int32\<rparr>,
             \<lparr>name = ''token_type_ids'', shape = Some [1, 128], dtype = Some Int32\<rparr>]
            [\<lparr>name = ''logits'', shape = None, dtype = None\<rparr>]
            ''mlprogram'' MacOS14 =
          ct_convert ?ok traced
            [\<lparr>name = ''input_ids'', shape = Some [1, 128], dtype = Some Int32\<rparr>,
             \<lparr>name = ''attention_mask'', shape = Some [1, 128], dtype = Some Int32\<rparr>,
             \<lparr>name = ''token_type_ids'', shape = Some [1, 128], dtype = Some Int32\<rparr>]
            [\<lparr>name = ''logits'', shape = None, dtype = None\<rparr>]
            ''mlprogram'' MacOS14"
    by (simp add: example_env_def)
  from ok have "\<forall>f. (\<forall>traced. f traced
            [\<lparr>name = ''input_ids'', shape = Some [1, 128], dtype = Some Int32\<rparr>,
             \<lparr>name = ''attention_mask'', shape = Some [1, 128], dtype = Some Int32\<rparr>,
             \<lparr>name = ''token_type_ids'', shape = Some [1, 128], dtype = Some Int32\<rparr>]
            [\<lparr>name = ''logits'', shape = None, dtype = None\<rparr>]
            ''mlprogram'' MacOS14 =
          ct_convert ?ok traced
            [\<lparr>name = ''input_ids'', shape = Some [1, 128], dtype = Some Int32\<rparr>,
             \<lparr>name = ''attention_mask'', shape = Some [1, 128], dtype = Some Int32\<rparr>,
             \<lparr>name = ''token_type_ids'', shape = Some [1, 128], dtype = Some Int32\<rparr>]
            [\<lparr>name = ''logits'', shape = None, dtype = None\<rparr>]
            ''mlprogram'' MacOS14) \<longrightarrow>
        main (?ok\<lparr>ct_convert := f\<rparr>) Map.empty = (Inr (), snd (main ?ok Map.empty))"
    by (elim conjE)
  from this [rule_format, of ?f, OF agree [rule_format]]
  have other: "fst (main (?ok\<lparr>ct_convert := ?f\<rparr>) Map.empty) = Inr ()"
    by simp
  from h1 h2 none mem count other show ?thesis
    by (intro conjI)
qed




end
